theory Spec2Isabelle
  imports Complex_Main
begin

section \<open>The frame scheduler of \<^verbatim>\<open>src/raf/raf.ts\<close>\<close>

text \<open>
  JavaScript numbers are idealised as reals (finite doubles, no rounding error).
  A registered callback is a value of an arbitrary type \<open>'cb\<close>, compared by
  equality the way \<^verbatim>\<open>==\<close> compares function references. What a callback does
  when it is called is given by the host: it sees the arguments the scheduler passes
  (\<^verbatim>\<open>frame\<close>, \<^verbatim>\<open>lastUpdateTime\<close>, \<^verbatim>\<open>elapsed\<close>), it may change the world outside
  the scheduler (\<open>'e\<close>), it may call the \<^verbatim>\<open>stop\<close> function it is handed, and it may
  throw; it does not call the scheduler's other methods while it runs. The clock
  \<^verbatim>\<open>time.now()\<close> is a reading of the outside world, and so is the
  \<^verbatim>\<open>performance.now()\<close> that \<^verbatim>\<open>start\<close> reads.
\<close>

datatype completion = Normal | Thrown

record outcome =
  stop_called :: bool
  raised :: bool

record ('cb, 'e) host =
  time_now :: "'e \<Rightarrow> real"
  invoke :: "'cb \<Rightarrow> real option \<times> real \<times> real \<Rightarrow> 'e \<Rightarrow> 'e \<times> outcome"

text \<open>
  The fields of class \<^verbatim>\<open>Raf\<close>; the field \<^verbatim>\<open>raf_\<close> is \<open>rafId\<close> and the method
  \<^verbatim>\<open>animationLoop_\<close> is \<open>animationLoop\<close> here, since a name cannot end with an
  underscore. \<^verbatim>\<open>currentFps\<close> is \<^verbatim>\<open>1000 / elapsed\<close>, which
  JavaScript evaluates to a non-finite number when \<^verbatim>\<open>elapsed\<close> is zero: \<open>None\<close> stands
  for that.
\<close>

record ('cb, 'e) Raf =
  rafId :: "nat option"
  frame :: "real option"
  lastUpdateTime :: real
  delta :: real
  fps :: real
  currentFps :: "real option"
  isPlaying :: bool
  callbacks :: "'cb list"
  runCondition :: "('e \<Rightarrow> bool) option"
  isRunningRaf :: bool
  elaspedTime :: real
  startTime :: real

text \<open>
  One scheduler together with the platform's frame source and the outside world:
  \<open>pending\<close> holds the handles of the frame requests that were issued and neither
  delivered nor cancelled, \<open>nextHandle\<close> is the handle the next request gets, and
  \<open>peak\<close> is a monitor recording the largest number of requests that were ever
  outstanding at once.
\<close>

record ('cb, 'e) world = "('cb, 'e) Raf" +
  pending :: "nat list"
  nextHandle :: nat
  peak :: nat
  env :: 'e

definition requestAnimationFrame :: "('cb, 'e) world \<Rightarrow> nat \<times> ('cb, 'e) world" where
  "requestAnimationFrame w =
     (nextHandle w,
      w\<lparr>pending := pending w @ [nextHandle w],
        nextHandle := Suc (nextHandle w),
        peak := max (peak w) (Suc (length (pending w)))\<rparr>)"

definition cancelAnimationFrame :: "nat option \<Rightarrow> ('cb, 'e) world \<Rightarrow> ('cb, 'e) world" where
  "cancelAnimationFrame k w =
     (case k of None \<Rightarrow> w | Some n \<Rightarrow> w\<lparr>pending := removeAll n (pending w)\<rparr>)"

definition watch :: "'cb \<Rightarrow> ('cb, 'e) world \<Rightarrow> ('cb, 'e) world" where
  "watch callback w = w\<lparr>callbacks := callbacks w @ [callback]\<rparr>"

definition unwatch :: "'cb \<Rightarrow> ('cb, 'e) world \<Rightarrow> ('cb, 'e) world" where
  "unwatch callbackToRemove w =
     w\<lparr>callbacks := filter (\<lambda>callback. callback = callbackToRemove) (callbacks w)\<rparr>"

definition new_Raf :: "'cb option \<Rightarrow> 'e \<Rightarrow> ('cb, 'e) world" where
  "new_Raf rafLoop e =
     (let w = \<lparr>rafId = None, frame = None, lastUpdateTime = 0, delta = 0, fps = 0,
                currentFps = Some 0, isPlaying = False, callbacks = [],
                runCondition = None, isRunningRaf = False, elaspedTime = 0,
                startTime = 0, pending = [], nextHandle = 0, peak = 0, env = e\<rparr>
      in case rafLoop of None \<Rightarrow> w | Some c \<Rightarrow> watch c w)"

definition runWhen :: "('e \<Rightarrow> bool) \<Rightarrow> ('cb, 'e) world \<Rightarrow> ('cb, 'e) world" where
  "runWhen callbackCondition w = w\<lparr>runCondition := Some callbackCondition\<rparr>"

definition setFps :: "real \<Rightarrow> ('cb, 'e) world \<Rightarrow> ('cb, 'e) world" where
  "setFps n w = w\<lparr>fps := n\<rparr>"

definition stop :: "('cb, 'e) world \<Rightarrow> ('cb, 'e) world" where
  "stop w = (cancelAnimationFrame (rafId w) (w\<lparr>isPlaying := False\<rparr>))\<lparr>isRunningRaf := False\<rparr>"

definition dispose :: "('cb, 'e) world \<Rightarrow> ('cb, 'e) world" where
  "dispose w = stop w"

text \<open>
  One turn of \<^verbatim>\<open>this.callbacks.forEach\<close>: the run condition, when there is one, is
  asked before each callback; the callback gets \<^verbatim>\<open>this.frame\<close>,
  \<^verbatim>\<open>this.lastUpdateTime\<close> and \<^verbatim>\<open>elapsed\<close>. There is no \<^verbatim>\<open>try\<close> around the call, so a
  callback that throws ends the iteration.
\<close>

definition callCallback ::
  "('cb, 'e) host \<Rightarrow> real \<Rightarrow> 'cb \<Rightarrow> ('cb, 'e) world \<Rightarrow> completion \<times> ('cb, 'e) world" where
  "callCallback h elapsed callback w =
     (case invoke h callback (frame w, lastUpdateTime w, elapsed) (env w) of
        (e', out) \<Rightarrow>
          (let w1 = w\<lparr>env := e'\<rparr>;
               w2 = (if stop_called out then stop w1 else w1)
           in (if raised out then Thrown else Normal, w2)))"

fun forEach_callbacks ::
  "('cb, 'e) host \<Rightarrow> real \<Rightarrow> 'cb list \<Rightarrow> ('cb, 'e) world \<Rightarrow> completion \<times> ('cb, 'e) world" where
  "forEach_callbacks h elapsed [] w = (Normal, w)"
| "forEach_callbacks h elapsed (callback # rest) w =
     (if (case runCondition w of None \<Rightarrow> True | Some cond \<Rightarrow> cond (env w))
      then (case callCallback h elapsed callback w of
              (Thrown, w') \<Rightarrow> (Thrown, w')
            | (Normal, w') \<Rightarrow> forEach_callbacks h elapsed rest w')
      else forEach_callbacks h elapsed rest w)"

text \<open>
  The parts of \<^verbatim>\<open>animationLoop_\<close>: the request for the next frame with the flag set
  after it, the interval \<^verbatim>\<open>1000 / this.fps\<close> (zero when \<^verbatim>\<open>fps\<close> is zero), the
  clock fields written from \<^verbatim>\<open>elapsed\<close>, and the closing
  \<^verbatim>\<open>if (!this.lastUpdateTime)\<close>.
\<close>

definition requestFrame :: "('cb, 'e) world \<Rightarrow> ('cb, 'e) world" where
  "requestFrame w =
     (case requestAnimationFrame w of (k, w1) \<Rightarrow> w1\<lparr>rafId := Some k, isRunningRaf := True\<rparr>)"

definition threshold :: "('cb, 'e) world \<Rightarrow> real" where
  "threshold w = (if fps w = 0 then 0 else 1000 / fps w)"

definition measured :: "real \<Rightarrow> ('cb, 'e) world \<Rightarrow> ('cb, 'e) world" where
  "measured elapsed w =
     w\<lparr>delta := elapsed,
       elaspedTime := elaspedTime w + elapsed / 1000,
       currentFps := (if elapsed = 0 then None else Some (1000 / elapsed))\<rparr>"

definition record_first_time :: "('cb, 'e) host \<Rightarrow> ('cb, 'e) world \<Rightarrow> ('cb, 'e) world" where
  "record_first_time h w =
     (if lastUpdateTime w = 0 then w\<lparr>lastUpdateTime := time_now h (env w)\<rparr> else w)"

definition animationLoop ::
  "('cb, 'e) host \<Rightarrow> ('cb, 'e) world \<Rightarrow> completion \<times> ('cb, 'e) world" where
  "animationLoop h w =
     (if isRunningRaf w then (Normal, w)
      else
        (let w2 = requestFrame w
         in if lastUpdateTime w2 \<noteq> 0
            then
              (let current = time_now h (env w2);
                   elapsed = current - lastUpdateTime w2;
                   w3 = measured elapsed w2
               in if elapsed > threshold w3
                  then (case forEach_callbacks h elapsed (callbacks w3) w3 of
                          (Thrown, w4) \<Rightarrow> (Thrown, w4)
                        | (Normal, w4) \<Rightarrow>
                            (Normal,
                             record_first_time h (w4\<lparr>lastUpdateTime := time_now h (env w4)\<rparr>)))
                  else (Normal, record_first_time h w3))
            else (Normal, record_first_time h w2)))"

definition start :: "('cb, 'e) host \<Rightarrow> bool \<Rightarrow> ('cb, 'e) world \<Rightarrow> completion \<times> ('cb, 'e) world" where
  "start h force w =
     (if \<not> force \<and> isPlaying w then (Normal, w)
      else (case animationLoop h (w\<lparr>startTime := time_now h (env w)\<rparr>) of
              (Thrown, w') \<Rightarrow> (Thrown, w')
            | (Normal, w') \<Rightarrow> (Normal, w'\<lparr>isPlaying := True\<rparr>)))"

text \<open>
  The function handed to \<^verbatim>\<open>window.requestAnimationFrame\<close>, called by the platform
  with the frame's timestamp.
\<close>

definition onFrame ::
  "('cb, 'e) host \<Rightarrow> real \<Rightarrow> ('cb, 'e) world \<Rightarrow> completion \<times> ('cb, 'e) world" where
  "onFrame h ts w = animationLoop h (w\<lparr>frame := Some ts, isRunningRaf := False\<rparr>)"

text \<open>
  A platform frame delivers the requests that are outstanding when the frame begins,
  each unless it was cancelled meanwhile; an exception leaving a frame callback is
  reported by the platform and the next callback still runs.
\<close>

fun deliver :: "('cb, 'e) host \<Rightarrow> real \<Rightarrow> nat list \<Rightarrow> ('cb, 'e) world \<Rightarrow> ('cb, 'e) world" where
  "deliver h ts [] w = w"
| "deliver h ts (k # ks) w =
     (if k \<in> set (pending w)
      then deliver h ts ks (snd (onFrame h ts (w\<lparr>pending := removeAll k (pending w)\<rparr>)))
      else deliver h ts ks w)"

definition platformFrame :: "('cb, 'e) host \<Rightarrow> real \<Rightarrow> ('cb, 'e) world \<Rightarrow> ('cb, 'e) world" where
  "platformFrame h ts w = deliver h ts (pending w) w"

text \<open>
  A host for running the scheduler on concrete inputs: the outside world is a clock
  and the list of the callbacks called so far; the callbacks in \<open>throwers\<close> throw and
  those in \<open>stoppers\<close> call the stop function.
\<close>

record timed =
  clock :: real

record 'cb probe = timed +
  calls :: "'cb list"

definition probe_host :: "'cb set \<Rightarrow> 'cb set \<Rightarrow> ('cb, 'cb probe) host" where
  "probe_host throwers stoppers =
     \<lparr>time_now = clock,
      invoke = (\<lambda>c args e.
        (e\<lparr>calls := calls e @ [c]\<rparr>,
         \<lparr>stop_called = (c \<in> stoppers), raised = (c \<in> throwers)\<rparr>))\<rparr>"

definition at_time :: "real \<Rightarrow> ('cb, 'e::type timed_scheme) world \<Rightarrow> ('cb, 'e timed_scheme) world" where
  "at_time t w = w\<lparr>env := (env w)\<lparr>clock := t\<rparr>\<rparr>"

text \<open>
  Notions the statements about a tick use: the arguments every callback of one tick
  receives, the state in which the iteration over the callbacks begins, and the outside
  world after the callbacks of a list were called one after the other with the same
  arguments.
\<close>

definition tick_args :: "('cb, 'e) host \<Rightarrow> real \<Rightarrow> ('cb, 'e) world \<Rightarrow> real option \<times> real \<times> real" where
  "tick_args h ts w = (Some ts, lastUpdateTime w, time_now h (env w) - lastUpdateTime w)"

definition iteration_start :: "('cb, 'e) host \<Rightarrow> real \<Rightarrow> ('cb, 'e) world \<Rightarrow> ('cb, 'e) world" where
  "iteration_start h ts w =
     measured (time_now h (env w) - lastUpdateTime w)
       (requestFrame (w\<lparr>frame := Some ts, isRunningRaf := False\<rparr>))"

definition invoke_in_order ::
  "('cb, 'e) host \<Rightarrow> real option \<times> real \<times> real \<Rightarrow> 'cb list \<Rightarrow> 'e \<Rightarrow> 'e" where
  "invoke_in_order h args cs e = foldl (\<lambda>e' c. fst (invoke h c args e')) e cs"

text \<open>
  Whether one of the callbacks called by the iteration over \<open>cs\<close> calls the stop
  function it is handed; the iteration ends with the first callback that throws.
\<close>

fun stop_called_in ::
  "('cb, 'e) host \<Rightarrow> real \<Rightarrow> 'cb list \<Rightarrow> ('cb, 'e) world \<Rightarrow> bool" where
  "stop_called_in h elapsed [] w = False"
| "stop_called_in h elapsed (callback # rest) w =
     (if (case runCondition w of None \<Rightarrow> True | Some cond \<Rightarrow> cond (env w))
      then stop_called (snd (invoke h callback (frame w, lastUpdateTime w, elapsed) (env w))) \<or>
           (\<not> raised (snd (invoke h callback (frame w, lastUpdateTime w, elapsed) (env w))) \<and>
            stop_called_in h elapsed rest (snd (callCallback h elapsed callback w)))
      else stop_called_in h elapsed rest w)"

text \<open>
  What can happen to a scheduler: a call of one of its public methods, a platform
  frame, or a change of the outside world (time passing). An exception that leaves
  \<^verbatim>\<open>start\<close> goes to the caller; the scheduler keeps the state it had then.
\<close>

datatype ('cb, 'e) action =
    Watch 'cb
  | Unwatch 'cb
  | RunWhen "'e \<Rightarrow> bool"
  | SetFps real
  | Start bool
  | Stop
  | Dispose
  | Frame real
  | Outside "'e \<Rightarrow> 'e"

fun perform :: "('cb, 'e) host \<Rightarrow> ('cb, 'e) world \<Rightarrow> ('cb, 'e) action \<Rightarrow> ('cb, 'e) world" where
  "perform h w (Watch c) = watch c w"
| "perform h w (Unwatch c) = unwatch c w"
| "perform h w (RunWhen p) = runWhen p w"
| "perform h w (SetFps n) = setFps n w"
| "perform h w (Start force) = snd (start h force w)"
| "perform h w Stop = stop w"
| "perform h w Dispose = dispose w"
| "perform h w (Frame ts) = platformFrame h ts w"
| "perform h w (Outside f) = w\<lparr>env := f (env w)\<rparr>"

text \<open>
  The invariant of the frame requests: nothing is outstanding unless the flag
  \<^verbatim>\<open>isRunningRaf\<close> is set, and then only the request named by \<^verbatim>\<open>raf_\<close>.
\<close>

definition one_request :: "('cb, 'e) world \<Rightarrow> bool" where
  "one_request w \<longleftrightarrow>
     peak w \<le> 1 \<and>
     pending w = (if isRunningRaf w then (case rafId w of None \<Rightarrow> [] | Some k \<Rightarrow> [k]) else [])"

text \<open>
  A scheduler with the callbacks \<open>cs\<close> registered in this order, started when the
  clock reads \<open>t\<close>.
\<close>

definition started :: "('cb, 'cb probe) host \<Rightarrow> 'cb list \<Rightarrow> real \<Rightarrow> ('cb, 'cb probe) world" where
  "started h cs t =
     snd (start h False (foldl (\<lambda>w c. watch c w) (new_Raf None \<lparr>clock = t, calls = []\<rparr>) cs))"

section \<open>The helpers of \<^verbatim>\<open>mathf\<close>\<close>

text \<open>
  The progress engine and the progress watcher call helpers of the module
  \<^verbatim>\<open>mathf/mathf\<close> and the default easing function of \<^verbatim>\<open>EASE\<close>; neither module is
  among the source files.

  The helpers that round, and \<^verbatim>\<open>mathf.ease\<close>, compute on double-precision numbers.
  They are parameters of the engine: a number is the real that a finite double
  denotes, the parameters are the functions the module provides, and what is proved
  of the engine holds for whatever values they return. \<open>'f\<close> is the type of easing
  functions, the values handed to \<^verbatim>\<open>mathf.ease\<close>; \<open>EASE_linear\<close> is \<^verbatim>\<open>EASE.linear\<close>.
\<close>

record 'f mathf =
  ease :: "real \<Rightarrow> real \<Rightarrow> real \<Rightarrow> 'f \<Rightarrow> real"
  toFixed :: "real \<Rightarrow> int \<Rightarrow> real"
  floorToPrecision :: "real \<Rightarrow> int \<Rightarrow> real"
  ceilToPrecision :: "real \<Rightarrow> int \<Rightarrow> real"
  EASE_linear :: 'f

text \<open>Modelled from the spec: \<^verbatim>\<open>mathf.clampAsProgress\<close>, missing from the sources,
  "clamps \<open>p\<close> to [0,1]"; it returns its argument or a bound, with no rounding.\<close>

definition clampAsProgress :: "real \<Rightarrow> real" where
  "clampAsProgress p = max 0 (min 1 p)"

text \<open>Modelled from the spec: \<^verbatim>\<open>mathf.clampAsPercent\<close>, missing from the sources,
  clamps the ease amount to [0,1].\<close>

definition clampAsPercent :: "real \<Rightarrow> real" where
  "clampAsPercent a = max 0 (min 1 a)"

text \<open>Modelled from the spec: \<^verbatim>\<open>mathf.direction\<close>, missing from the sources,
  "\<open>direction = sign(p - previousProgress)\<close>".\<close>

definition direction :: "real \<Rightarrow> real \<Rightarrow> real" where
  "direction previous current = sgn (current - previous)"

text \<open>Modelled from the spec: \<^verbatim>\<open>mathf.isBetween\<close>, missing from the sources:
  "numerically between \<open>a\<close> and \<open>b\<close> inclusive", the bounds in either order (the
  watcher passes the new and the previous progress as bounds).\<close>

definition isBetween :: "real \<Rightarrow> real \<Rightarrow> real \<Rightarrow> bool" where
  "isBetween v a b \<longleftrightarrow> min a b \<le> v \<and> v \<le> max a b"

text \<open>Modelled from the spec: the power of ten for a number of decimal digits, which
  may be negative (\<^verbatim>\<open>precision - 1\<close> at precision 0); \<^verbatim>\<open>mathf\<close> is missing.\<close>

definition pow10 :: "int \<Rightarrow> real" where
  "pow10 d = (if 0 \<le> d then 10 ^ nat d else 1 / 10 ^ nat (- d))"

text \<open>Modelled from the spec: \<^verbatim>\<open>EASE.linear\<close>, missing from the sources, the default
  linear easing function \<open>(current, target, amount) \<rightarrow> number\<close>, with which "ease amount
  1 reaches target in one step".\<close>

definition linear_easing :: "real \<Rightarrow> real \<Rightarrow> real \<Rightarrow> real" where
  "linear_easing current target amount = current + (target - current) * amount"

text \<open>Modelled from the spec: helpers that compute without rounding error, for
  running the engine on concrete inputs: \<^verbatim>\<open>mathf.ease\<close> as
  "\<open>current' = easingFunction(current, target, easeAmount)\<close>", \<^verbatim>\<open>mathf.toFixed\<close> as
  "round to \<open>precision\<close> decimal digits", \<^verbatim>\<open>mathf.floorToPrecision\<close> and
  \<^verbatim>\<open>mathf.ceilToPrecision\<close> as "floor [ceil] it to \<open>precision - 1\<close> digits"; the module
  \<^verbatim>\<open>mathf\<close> is missing from the sources. They are used below only at inputs where
  the double-precision computation gives the same values.\<close>

definition exact_mathf :: "(real \<Rightarrow> real \<Rightarrow> real \<Rightarrow> real) mathf" where
  "exact_mathf =
     \<lparr>ease = (\<lambda>current target amount easing. easing current target amount),
      toFixed = (\<lambda>v digits. of_int (round (v * pow10 digits)) / pow10 digits),
      floorToPrecision = (\<lambda>v digits. of_int \<lfloor>v * pow10 digits\<rfloor> / pow10 digits),
      ceilToPrecision = (\<lambda>v digits. of_int \<lceil>v * pow10 digits\<rceil> / pow10 digits),
      EASE_linear = linear_easing\<rparr>"

section \<open>The progress engine \<^verbatim>\<open>RafProgress\<close>\<close>

text \<open>
  The fields of \<^verbatim>\<open>RafProgress\<close> other than its scheduler. The engine is an event
  emitter with an optional callback. Of a listener and of the callback the engine
  sees only whether the call returns or throws: \<open>listenerThrows v\<close> tells whether a
  listener registered for \<^verbatim>\<open>progressChange\<close> throws on an event carrying \<open>v\<close>, and
  \<open>progressRafLoop\<close> is the callback the constructor got, if any, as the test whether
  it throws when called with a value; neither calls the engine's methods while it
  runs. \<open>emitted\<close> lists the values of the events emitted so far and \<open>delivered\<close> the
  values the callback was called with. The engine's private scheduler is a \<open>world\<close>
  whose outside is this record: it has the one callback the constructor registers,
  \<^verbatim>\<open>() => { this.rafLoop(); }\<close>.
\<close>

record 'f RafProgress = timed +
  currentProgress :: real
  targetProgress :: real
  easeAmount :: real
  easingFunction :: 'f
  precision :: int
  progressRafLoop :: "(real \<Rightarrow> bool) option"
  listenerThrows :: "real \<Rightarrow> bool"
  emitted :: "real list"
  delivered :: "real list"

datatype engine_callback = RafLoop

text \<open>
  \<^verbatim>\<open>rafLoop\<close>. An exception thrown by a listener leaves \<^verbatim>\<open>emit\<close> and \<^verbatim>\<open>rafLoop\<close>, and so
  does one thrown by the callback; the call of \<^verbatim>\<open>this.raf.stop()\<close> at the end is the
  outcome \<open>stop_called\<close>, which the scheduler applies when the callback returns.
\<close>

definition rafLoop :: "'f mathf \<Rightarrow> 'f RafProgress \<Rightarrow> 'f RafProgress \<times> outcome" where
  "rafLoop m e =
     (let previousProgress = currentProgress e;
          e1 = e\<lparr>currentProgress :=
                 ease m (currentProgress e) (targetProgress e) (easeAmount e) (easingFunction e)\<rparr>;
          e2 = e1\<lparr>currentProgress := toFixed m (currentProgress e1) (precision e1)\<rparr>;
          e3 = (if currentProgress e2 < 0.5
                then e2\<lparr>currentProgress :=
                        floorToPrecision m (currentProgress e2) (precision e2 - 1)\<rparr>
                else e2\<lparr>currentProgress :=
                        ceilToPrecision m (currentProgress e2) (precision e2 - 1)\<rparr>);
          e4 = e3\<lparr>emitted := emitted e3 @ [currentProgress e3]\<rparr>
      in if listenerThrows e4 (currentProgress e4)
         then (e4, \<lparr>stop_called = False, raised = True\<rparr>)
         else (case progressRafLoop e4 of
                 None \<Rightarrow>
                   (e4, \<lparr>stop_called = (previousProgress = currentProgress e4), raised = False\<rparr>)
               | Some cb \<Rightarrow>
                   (let e5 = e4\<lparr>delivered := delivered e4 @ [currentProgress e4]\<rparr>
                    in if cb (currentProgress e5)
                       then (e5, \<lparr>stop_called = False, raised = True\<rparr>)
                       else (e5, \<lparr>stop_called = (previousProgress = currentProgress e5),
                                  raised = False\<rparr>))))"

definition progress_host :: "'f mathf \<Rightarrow> (engine_callback, 'f RafProgress) host" where
  "progress_host m =
     \<lparr>time_now = clock, invoke = (\<lambda>c args e. case c of RafLoop \<Rightarrow> rafLoop m e)\<rparr>"

definition new_RafProgress ::
  "'f mathf \<Rightarrow> (real \<Rightarrow> bool) option \<Rightarrow> real \<Rightarrow> (engine_callback, 'f RafProgress) world" where
  "new_RafProgress m callback t =
     new_Raf (Some RafLoop)
       \<lparr>clock = t, currentProgress = 0, targetProgress = 0, easeAmount = 1,
        easingFunction = EASE_linear m, precision = 5, progressRafLoop = callback,
        listenerThrows = (\<lambda>v. False), emitted = [], delivered = []\<rparr>"

text \<open>Registering a listener for \<^verbatim>\<open>progressChange\<close> with the inherited \<^verbatim>\<open>on\<close>.\<close>

definition onProgressChange ::
  "(real \<Rightarrow> bool) \<Rightarrow> (engine_callback, 'f RafProgress) world \<Rightarrow>
   (engine_callback, 'f RafProgress) world" where
  "onProgressChange listener w =
     w\<lparr>env := (env w)\<lparr>listenerThrows := (\<lambda>v. listenerThrows (env w) v \<or> listener v)\<rparr>\<rparr>"

definition progress_stop ::
  "(engine_callback, 'f RafProgress) world \<Rightarrow> (engine_callback, 'f RafProgress) world" where
  "progress_stop w = stop w"

definition progress_run ::
  "'f mathf \<Rightarrow> (engine_callback, 'f RafProgress) world \<Rightarrow>
   completion \<times> (engine_callback, 'f RafProgress) world" where
  "progress_run m w = start (progress_host m) False w"

definition setPrecision ::
  "int \<Rightarrow> (engine_callback, 'f RafProgress) world \<Rightarrow> (engine_callback, 'f RafProgress) world" where
  "setPrecision v w = w\<lparr>env := (env w)\<lparr>precision := v\<rparr>\<rparr>"

definition setCurrentProgress ::
  "'f mathf \<Rightarrow> real \<Rightarrow> (engine_callback, 'f RafProgress) world \<Rightarrow>
   completion \<times> (engine_callback, 'f RafProgress) world" where
  "setCurrentProgress m p w =
     start (progress_host m) False
       (w\<lparr>env := (env w)\<lparr>currentProgress := clampAsProgress p,
                         targetProgress := clampAsProgress p,
                         easeAmount := 1\<rparr>\<rparr>)"

text \<open>\<^verbatim>\<open>easeTo\<close>; its third argument is optional and defaults to \<^verbatim>\<open>EASE.linear\<close>.\<close>

definition easeTo ::
  "'f mathf \<Rightarrow> real \<Rightarrow> real \<Rightarrow> 'f option \<Rightarrow> (engine_callback, 'f RafProgress) world \<Rightarrow>
   completion \<times> (engine_callback, 'f RafProgress) world" where
  "easeTo m target amount easing w =
     start (progress_host m) True
       (w\<lparr>env := (env w)\<lparr>targetProgress := clampAsProgress target,
                         easeAmount := clampAsPercent amount,
                         easingFunction := (case easing of None \<Rightarrow> EASE_linear m | Some f \<Rightarrow> f)\<rparr>\<rparr>)"

definition progress_dispose ::
  "(engine_callback, 'f RafProgress) world \<Rightarrow> (engine_callback, 'f RafProgress) world" where
  "progress_dispose w = stop w"

text \<open>
  Notions the statements about the engine use. The scheduler of an engine is private:
  it has the one callback, no run condition and no frame rate. \<open>directional m n v\<close> is
  \<open>v\<close> rounded to \<open>n\<close> digits and then floored (below 0.5) or ceiled to \<open>n - 1\<close> digits
  by the helpers \<open>m\<close>, and \<open>settle_value m e p\<close> is the value a tick stores when it
  finds current and target progress \<open>p\<close> and ease amount 1 in the engine \<open>e\<close>.
  \<open>ticks_at_once w\<close> tells whether an unforced \<^verbatim>\<open>start()\<close> runs a tick inside the
  call: the scheduler is not playing and has no frame in flight, it has ticked
  before, and the clock has passed the last tick time.
\<close>

definition engine_world :: "(engine_callback, 'f RafProgress) world \<Rightarrow> bool" where
  "engine_world w \<longleftrightarrow> callbacks w = [RafLoop] \<and> runCondition w = None \<and> fps w = 0"

definition directional :: "'f mathf \<Rightarrow> int \<Rightarrow> real \<Rightarrow> real" where
  "directional m n v =
     (if toFixed m v n < 0.5 then floorToPrecision m (toFixed m v n) (n - 1)
      else ceilToPrecision m (toFixed m v n) (n - 1))"



text \<open>
  Engines with the exact helpers, on which the statements are tried: a new engine
  constructed when the clock reads 100, on which \<^verbatim>\<open>setCurrentProgress(p)\<close> is called;
  the same engine after the platform frame at clock 116; and a new engine on which
  \<^verbatim>\<open>easeTo(0.5, 0.5)\<close> is called, which ticks at clock 116, gets
  \<^verbatim>\<open>setCurrentProgress(0.75)\<close> and ticks again at clock 132.
\<close>

definition set_on_new ::
  "real \<Rightarrow> (engine_callback, (real \<Rightarrow> real \<Rightarrow> real \<Rightarrow> real) RafProgress) world" where
  "set_on_new p = snd (setCurrentProgress exact_mathf p (new_RafProgress exact_mathf None 100))"

definition set_then_frame ::
  "real \<Rightarrow> (engine_callback, (real \<Rightarrow> real \<Rightarrow> real \<Rightarrow> real) RafProgress) world" where
  "set_then_frame p = platformFrame (progress_host exact_mathf) 16 (at_time 116 (set_on_new p))"

definition eased_then_set ::
  "(engine_callback, (real \<Rightarrow> real \<Rightarrow> real \<Rightarrow> real) RafProgress) world" where
  "eased_then_set =
     platformFrame (progress_host exact_mathf) 32
       (at_time 132
         (snd (setCurrentProgress exact_mathf 0.75
           (platformFrame (progress_host exact_mathf) 16
             (at_time 116
               (snd (easeTo exact_mathf 0.5 0.5 None (new_RafProgress exact_mathf None 100))))))))"

section \<open>The progress watcher of \<^verbatim>\<open>src/dom/progress-watcher.ts\<close>\<close>

text \<open>
  A watcher's \<^verbatim>\<open>range\<close> is a number or an array of numbers; its optional \<^verbatim>\<open>runWhen\<close>
  is a function without arguments. The names \<open>range\<close>, \<open>runWhen\<close>, \<open>currentProgress\<close> and
  \<open>direction\<close> are taken, so the fields of the watcher carry the suffix \<open>_w\<close>.
  \<^verbatim>\<open>dispose\<close> sets \<^verbatim>\<open>watchers\<close> to \<^verbatim>\<open>null\<close>, after which every method that reads the
  list fails with a \<^verbatim>\<open>TypeError\<close>. A call of a watcher's callback is recorded as the
  callback with the two arguments it gets.
\<close>

datatype progress_range = Point real | Range "real list"

record 'cb ProgressWatcherItem =
  range_w :: progress_range
  callback :: 'cb
  runWhen_w :: "(unit \<Rightarrow> bool) option"

record 'cb ProgressWatcher =
  watchers :: "'cb ProgressWatcherItem list option"
  currentProgress_w :: real
  direction_w :: real

datatype js_error = TypeError

definition new_ProgressWatcher :: "'cb ProgressWatcher" where
  "new_ProgressWatcher = \<lparr>watchers = Some [], currentProgress_w = 0, direction_w = 0\<rparr>"

definition add :: "'cb ProgressWatcherItem \<Rightarrow> 'cb ProgressWatcher \<Rightarrow> js_error + 'cb ProgressWatcher" where
  "add progressWatchItem pw =
     (case watchers pw of
        None \<Rightarrow> Inl TypeError
      | Some ws \<Rightarrow> Inr (pw\<lparr>watchers := Some (ws @ [progressWatchItem])\<rparr>))"

definition remove :: "'cb \<Rightarrow> 'cb ProgressWatcher \<Rightarrow> js_error + 'cb ProgressWatcher" where
  "remove cb pw =
     (case watchers pw of
        None \<Rightarrow> Inl TypeError
      | Some ws \<Rightarrow> Inr (pw\<lparr>watchers := Some (filter (\<lambda>watcher. callback watcher \<noteq> cb) ws)\<rparr>))"

text \<open>
  The body of the \<^verbatim>\<open>forEach\<close> of \<^verbatim>\<open>setProgress\<close> for one watcher: the calls it makes.
  An array with fewer than two elements has an undefined bound, and no number is
  between an undefined bound and anything.
\<close>

definition dispatch ::
  "real \<Rightarrow> 'cb ProgressWatcher \<Rightarrow> 'cb ProgressWatcherItem \<Rightarrow> ('cb \<times> real \<times> real) list" where
  "dispatch previousProgress pw watcher =
     (let between =
            (case range_w watcher of
               Range (a # b # rest) \<Rightarrow> isBetween (currentProgress_w pw) a b
             | Range short \<Rightarrow> False
             | Point x \<Rightarrow> isBetween x (currentProgress_w pw) previousProgress)
      in if between
         then (if (case runWhen_w watcher of None \<Rightarrow> False | Some guard \<Rightarrow> guard ())
               then [(callback watcher, currentProgress_w pw, direction_w pw)]
               else [(callback watcher, currentProgress_w pw, direction_w pw)])
         else [])"

definition setProgress ::
  "real \<Rightarrow> 'cb ProgressWatcher \<Rightarrow> js_error + 'cb ProgressWatcher \<times> ('cb \<times> real \<times> real) list" where
  "setProgress progress pw =
     (let previousProgress = currentProgress_w pw;
          pw1 = pw\<lparr>currentProgress_w := progress\<rparr>;
          d = direction previousProgress (currentProgress_w pw1);
          pw2 = (if d = - 1 \<or> d = 1 then pw1\<lparr>direction_w := d\<rparr> else pw1)
      in case watchers pw2 of
           None \<Rightarrow> Inl TypeError
         | Some ws \<Rightarrow> Inr (pw2, concat (map (dispatch previousProgress pw2) ws)))"

definition clear :: "'cb ProgressWatcher \<Rightarrow> 'cb ProgressWatcher" where
  "clear pw = pw\<lparr>watchers := Some []\<rparr>"

definition dispose_w :: "'cb ProgressWatcher \<Rightarrow> 'cb ProgressWatcher" where
  "dispose_w pw = pw\<lparr>watchers := None\<rparr>"

section \<open>The keyframe storyboard\<close>

text \<open>
  The module \<^verbatim>\<open>dom/vector-dom-timeline\<close> is not among the source files; only its
  test \<^verbatim>\<open>vector-dom-timeline.spec.ts\<close> is. A keyframe is an object with a
  \<^verbatim>\<open>progress\<close> and a value for some of the keys; an entry of a key's track is a
  keyframe that carries the value of that key only.
\<close>

record keyframe =
  progress :: real
  values_of :: "(string \<times> real) list"

datatype storyboard_error = UnknownTrackKey | EmptyTrack | NoBoundingPair

text \<open>Modelled from the spec: the keyframes of a list "that specify a value for that
  key", each cut down to that key, "sort[ed] by progress ascending (ties broken by
  original list order)"; \<^verbatim>\<open>generateStoryboard\<close> is missing from the sources.\<close>

definition explicit_frames :: "string \<Rightarrow> keyframe list \<Rightarrow> keyframe list" where
  "explicit_frames k frames =
     sort_key progress
       (concat (map (\<lambda>f. case map_of (values_of f) k of
                             None \<Rightarrow> []
                           | Some v \<Rightarrow> [\<lparr>progress = progress f, values_of = [(k, v)]\<rparr>]) frames))"

text \<open>Modelled from the spec: the track of one key, the explicit keyframes with "a
  progress-0 entry (copy of the earliest explicit value if none exists at exactly 0)
  and a progress-1 entry (copy of the latest explicit value if none exists at exactly
  1)"; \<^verbatim>\<open>generateStoryboard\<close> is missing from the sources.\<close>

definition track_of :: "string \<Rightarrow> keyframe list \<Rightarrow> keyframe list" where
  "track_of k frames =
     (case explicit_frames k frames of
        [] \<Rightarrow> []
      | first # others \<Rightarrow>
          (if list_ex (\<lambda>f. progress f = 0) (first # others) then []
           else [\<lparr>progress = 0, values_of = values_of first\<rparr>])
          @ (first # others)
          @ (if list_ex (\<lambda>f. progress f = 1) (first # others) then []
             else [\<lparr>progress = 1, values_of = values_of (last (first # others))\<rparr>]))"

text \<open>Modelled from the spec: \<open>compile(keys, keyframes)\<close>
  (\<^verbatim>\<open>VectorDomTimeline.generateStoryboard\<close>, missing from the sources), the mapping from
  each tracked key to its track.\<close>

definition generateStoryboard :: "string list \<Rightarrow> keyframe list \<Rightarrow> (string \<rightharpoonup> keyframe list)" where
  "generateStoryboard keys frames = map_of (map (\<lambda>k. (k, track_of k frames)) keys)"

text \<open>Modelled from the spec: the first pair of adjacent keyframes of a track with
  \<open>start.progress \<le> progress \<le> end.progress\<close>, which at the exact progress of a
  keyframe is the segment that ends there, and at progress 0 the first segment;
  \<^verbatim>\<open>getStartAndEndTimelineFromStoryboard\<close> is missing from the sources.\<close>

fun bounding_pair :: "keyframe list \<Rightarrow> real \<Rightarrow> (keyframe \<times> keyframe) option" where
  "bounding_pair (a # b # rest) p =
     (if progress a \<le> p \<and> p \<le> progress b then Some (a, b) else bounding_pair (b # rest) p)"
| "bounding_pair short p = None"

text \<open>Modelled from the spec: \<open>resolve(storyboard, key, progress)\<close>
  (\<^verbatim>\<open>VectorDomTimeline.getStartAndEndTimelineFromStoryboard\<close>, missing from the
  sources). A key absent from the storyboard and an empty track are the two errors
  the specification names; it names no result for a progress that no pair of the
  track bounds, which is the third error here.\<close>

definition getStartAndEndTimelineFromStoryboard ::
  "(string \<rightharpoonup> keyframe list) \<Rightarrow> string \<Rightarrow> real \<Rightarrow> storyboard_error + keyframe \<times> keyframe" where
  "getStartAndEndTimelineFromStoryboard storyboard k p =
     (case storyboard k of
        None \<Rightarrow> Inl UnknownTrackKey
      | Some [] \<Rightarrow> Inl EmptyTrack
      | Some track \<Rightarrow>
          (case bounding_pair track p of
             None \<Rightarrow> Inl NoBoundingPair
           | Some pair \<Rightarrow> Inr pair))"

text \<open>The keyframes of the worked example: 0.2 with alpha 0, 0.5 with no value, 0.8
  with alpha 0.6.\<close>

definition example_frames :: "keyframe list" where
  "example_frames =
     [\<lparr>progress = 0.2, values_of = [(''alpha'', 0)]\<rparr>,
      \<lparr>progress = 0.5, values_of = []\<rparr>,
      \<lparr>progress = 0.8, values_of = [(''alpha'', 0.6)]\<rparr>]"

section \<open>Properties of the frame scheduler\<close>

lemmas raf_defs = requestAnimationFrame_def cancelAnimationFrame_def watch_def unwatch_def
  new_Raf_def runWhen_def setFps_def stop_def dispose_def callCallback_def
  requestFrame_def threshold_def measured_def
  record_first_time_def animationLoop_def start_def onFrame_def platformFrame_def
  probe_host_def at_time_def Let_def

subsection \<open>What the parts of the loop leave alone\<close>

lemma stop_fields:
  "env (stop w) = env w" "frame (stop w) = frame w" "lastUpdateTime (stop w) = lastUpdateTime w"
  "runCondition (stop w) = runCondition w" "callbacks (stop w) = callbacks w"
  "fps (stop w) = fps w" "rafId (stop w) = rafId w" "nextHandle (stop w) = nextHandle w"
  "delta (stop w) = delta w" "peak (stop w) = peak w"
  by (simp_all add: stop_def cancelAnimationFrame_def split: option.splits)

lemma stop_eq:
  "stop w = w\<lparr>isPlaying := False,
     pending := (case rafId w of None \<Rightarrow> pending w | Some n \<Rightarrow> removeAll n (pending w)),
     isRunningRaf := False\<rparr>"
  by (cases "rafId w") (simp_all add: stop_def cancelAnimationFrame_def)

lemma requestFrame_fields:
  "env (requestFrame w) = env w" "frame (requestFrame w) = frame w"
  "lastUpdateTime (requestFrame w) = lastUpdateTime w"
  "runCondition (requestFrame w) = runCondition w" "callbacks (requestFrame w) = callbacks w"
  "fps (requestFrame w) = fps w" "delta (requestFrame w) = delta w"
  "isPlaying (requestFrame w) = isPlaying w"
  "rafId (requestFrame w) = Some (nextHandle w)" "isRunningRaf (requestFrame w)"
  "pending (requestFrame w) = pending w @ [nextHandle w]"
  "nextHandle (requestFrame w) = Suc (nextHandle w)"
  "peak (requestFrame w) = max (peak w) (Suc (length (pending w)))"
  by (simp_all add: requestFrame_def requestAnimationFrame_def)

lemma measured_fields:
  "env (measured el w) = env w" "frame (measured el w) = frame w"
  "lastUpdateTime (measured el w) = lastUpdateTime w"
  "runCondition (measured el w) = runCondition w" "callbacks (measured el w) = callbacks w"
  "fps (measured el w) = fps w" "delta (measured el w) = el"
  "isPlaying (measured el w) = isPlaying w"
  "rafId (measured el w) = rafId w" "isRunningRaf (measured el w) = isRunningRaf w"
  "pending (measured el w) = pending w" "nextHandle (measured el w) = nextHandle w"
  "peak (measured el w) = peak w" "threshold (measured el w) = threshold w"
  by (simp_all add: measured_def threshold_def)

lemma iteration_start_fields:
  "env (iteration_start h ts w) = env w" "frame (iteration_start h ts w) = Some ts"
  "lastUpdateTime (iteration_start h ts w) = lastUpdateTime w"
  "runCondition (iteration_start h ts w) = runCondition w"
  "callbacks (iteration_start h ts w) = callbacks w"
  "isPlaying (iteration_start h ts w) = isPlaying w"
  "isRunningRaf (iteration_start h ts w)"
  "pending (iteration_start h ts w) = pending w @ [nextHandle w]"
  by (simp_all add: iteration_start_def measured_fields requestFrame_fields)

lemma record_first_time_fields:
  "env (record_first_time h w) = env w" "pending (record_first_time h w) = pending w"
  "isRunningRaf (record_first_time h w) = isRunningRaf w"
  "isPlaying (record_first_time h w) = isPlaying w"
  "rafId (record_first_time h w) = rafId w" "peak (record_first_time h w) = peak w"
  "delta (record_first_time h w) = delta w"
  "lastUpdateTime (record_first_time h w) =
     (if lastUpdateTime w = 0 then time_now h (env w) else lastUpdateTime w)"
  by (simp_all add: record_first_time_def)

lemma callCallback_eq:
  "callCallback h el c w =
     (if raised (snd (invoke h c (frame w, lastUpdateTime w, el) (env w))) then Thrown else Normal,
      if stop_called (snd (invoke h c (frame w, lastUpdateTime w, el) (env w)))
      then stop (w\<lparr>env := fst (invoke h c (frame w, lastUpdateTime w, el) (env w))\<rparr>)
      else w\<lparr>env := fst (invoke h c (frame w, lastUpdateTime w, el) (env w))\<rparr>)"
  by (simp add: callCallback_def Let_def split: prod.splits)

lemma callCallback_fields:
  "env (snd (callCallback h el c w)) = fst (invoke h c (frame w, lastUpdateTime w, el) (env w))"
  "frame (snd (callCallback h el c w)) = frame w"
  "lastUpdateTime (snd (callCallback h el c w)) = lastUpdateTime w"
  "runCondition (snd (callCallback h el c w)) = runCondition w"
  by (simp_all add: callCallback_eq stop_fields)

subsection \<open>The frame handler, by cases\<close>

lemma onFrame_first:
  assumes "lastUpdateTime w = 0"
  shows "onFrame h ts w =
     (Normal, record_first_time h (requestFrame (w\<lparr>frame := Some ts, isRunningRaf := False\<rparr>)))"
  using assms by (simp add: onFrame_def animationLoop_def Let_def requestFrame_fields)

lemma onFrame_skip:
  assumes "lastUpdateTime w \<noteq> 0" and "\<not> threshold w < time_now h (env w) - lastUpdateTime w"
  shows "onFrame h ts w = (Normal, iteration_start h ts w)"
proof -
  have "threshold (requestFrame (w\<lparr>frame := Some ts, isRunningRaf := False\<rparr>)) = threshold w"
    by (simp add: threshold_def requestFrame_fields)
  then show ?thesis
    using assms
    by (simp add: onFrame_def animationLoop_def Let_def requestFrame_fields measured_fields
        iteration_start_def record_first_time_def)
qed

lemma onFrame_run:
  assumes "lastUpdateTime w \<noteq> 0" and "threshold w < time_now h (env w) - lastUpdateTime w"
  shows "onFrame h ts w =
     (case forEach_callbacks h (time_now h (env w) - lastUpdateTime w) (callbacks w)
             (iteration_start h ts w) of
        (Thrown, w4) \<Rightarrow> (Thrown, w4)
      | (Normal, w4) \<Rightarrow>
          (Normal, record_first_time h (w4\<lparr>lastUpdateTime := time_now h (env w4)\<rparr>)))"
proof -
  have "threshold (requestFrame (w\<lparr>frame := Some ts, isRunningRaf := False\<rparr>)) = threshold w"
    by (simp add: threshold_def requestFrame_fields)
  then show ?thesis
    using assms
    by (simp add: onFrame_def animationLoop_def Let_def requestFrame_fields measured_fields
        iteration_start_def)
qed

subsection \<open>The iteration over the callbacks\<close>

lemma forEach_append:
  "forEach_callbacks h el (xs @ ys) w =
     (case forEach_callbacks h el xs w of
        (Thrown, w') \<Rightarrow> (Thrown, w')
      | (Normal, w') \<Rightarrow> forEach_callbacks h el ys w')"
  by (induction xs arbitrary: w) (auto split: prod.splits completion.splits)

lemma forEach_no_raise:
  assumes "runCondition w = None"
    and "\<forall>b\<in>set cs. \<forall>a e. \<not> raised (snd (invoke h b a e))"
  shows "fst (forEach_callbacks h el cs w) = Normal \<and>
         env (snd (forEach_callbacks h el cs w)) =
           invoke_in_order h (frame w, lastUpdateTime w, el) cs (env w) \<and>
         frame (snd (forEach_callbacks h el cs w)) = frame w \<and>
         lastUpdateTime (snd (forEach_callbacks h el cs w)) = lastUpdateTime w \<and>
         runCondition (snd (forEach_callbacks h el cs w)) = None"
  using assms
proof (induction cs arbitrary: w)
  case Nil
  then show ?case by (simp add: invoke_in_order_def)
next
  case (Cons c cs)
  obtain r w' where cc: "callCallback h el c w = (r, w')" by (cases "callCallback h el c w")
  have "\<not> raised (snd (invoke h c (frame w, lastUpdateTime w, el) (env w)))"
    using Cons.prems(2) by auto
  then have r: "r = Normal" using cc by (simp add: callCallback_eq)
  have f: "env w' = fst (invoke h c (frame w, lastUpdateTime w, el) (env w))"
    "frame w' = frame w" "lastUpdateTime w' = lastUpdateTime w" "runCondition w' = None"
    using callCallback_fields[of h el c w] cc Cons.prems by simp_all
  have ih: "fst (forEach_callbacks h el cs w') = Normal \<and>
         env (snd (forEach_callbacks h el cs w')) =
           invoke_in_order h (frame w', lastUpdateTime w', el) cs (env w') \<and>
         frame (snd (forEach_callbacks h el cs w')) = frame w' \<and>
         lastUpdateTime (snd (forEach_callbacks h el cs w')) = lastUpdateTime w' \<and>
         runCondition (snd (forEach_callbacks h el cs w')) = None"
    using Cons.IH[of w'] f Cons.prems by simp
  show ?case using ih f r cc Cons.prems(1) by (simp add: invoke_in_order_def)
qed

lemma forEach_quiet:
  assumes "runCondition w = None"
    and "\<forall>b\<in>set cs. \<forall>a e. \<not> raised (snd (invoke h b a e)) \<and> \<not> stop_called (snd (invoke h b a e))"
  shows "forEach_callbacks h el cs w =
           (Normal, w\<lparr>env := invoke_in_order h (frame w, lastUpdateTime w, el) cs (env w)\<rparr>)"
  using assms
proof (induction cs arbitrary: w)
  case Nil
  then show ?case by (simp add: invoke_in_order_def)
next
  case (Cons c cs)
  have "\<not> raised (snd (invoke h c (frame w, lastUpdateTime w, el) (env w)))"
    "\<not> stop_called (snd (invoke h c (frame w, lastUpdateTime w, el) (env w)))"
    using Cons.prems(2) by auto
  then have cc: "callCallback h el c w =
      (Normal, w\<lparr>env := fst (invoke h c (frame w, lastUpdateTime w, el) (env w))\<rparr>)"
    by (simp add: callCallback_eq)
  show ?case
    using Cons.IH[of "w\<lparr>env := fst (invoke h c (frame w, lastUpdateTime w, el) (env w))\<rparr>"]
      Cons.prems cc
    by (simp add: invoke_in_order_def)
qed

lemma forEach_throwing:
  assumes "runCondition w = None"
    and "\<forall>b\<in>set before. \<forall>a e. \<not> raised (snd (invoke h b a e)) \<and> \<not> stop_called (snd (invoke h b a e))"
    and "raised (snd (invoke h c (frame w, lastUpdateTime w, el)
            (invoke_in_order h (frame w, lastUpdateTime w, el) before (env w))))"
    and "\<not> stop_called (snd (invoke h c (frame w, lastUpdateTime w, el)
            (invoke_in_order h (frame w, lastUpdateTime w, el) before (env w))))"
  shows "forEach_callbacks h el (before @ c # after) w =
     (Thrown, w\<lparr>env := fst (invoke h c (frame w, lastUpdateTime w, el)
            (invoke_in_order h (frame w, lastUpdateTime w, el) before (env w)))\<rparr>)"
proof -
  have "forEach_callbacks h el before w =
      (Normal, w\<lparr>env := invoke_in_order h (frame w, lastUpdateTime w, el) before (env w)\<rparr>)"
    using forEach_quiet[OF assms(1,2)] .
  then show ?thesis
    using assms(1,3,4) by (simp add: forEach_append callCallback_eq)
qed

lemmas probe_defs = raf_defs started_def tick_args_def invoke_in_order_def

subsection \<open>Removing a callback\<close>

lemma callbacks_unwatch:
  "callbacks (unwatch c w) = filter (\<lambda>x. x = c) (callbacks w)"
  by (simp add: unwatch_def)

text \<open>
  C1 (the claim: \<^verbatim>\<open>unwatch(c)\<close> removes \<open>c\<close> and leaves every other registered callback
  registered, so later ticks call exactly the callbacks that were not removed). The
  filter of \<^verbatim>\<open>unwatch\<close> keeps the callbacks that are equal to its argument: with the
  callbacks 1 and 2 registered, \<^verbatim>\<open>unwatch(1)\<close> leaves 1 registered and drops 2, and the
  next tick calls 1 only.
\<close>

theorem unwatch_keeps_only_its_argument:
  "callbacks (unwatch 1 (watch 2 (watch (1::nat) (new_Raf None \<lparr>clock = 100, calls = []\<rparr>)))) = [1] \<and>
   calls (env (platformFrame (probe_host {} {}) 16
      (at_time 116 (unwatch 1 (started (probe_host {} {}) [1, 2::nat] 100))))) = [1]"
  by (simp add: probe_defs)

subsection \<open>A callback that throws\<close>

lemma forEach_monitor:
  assumes "rafId w = Some k"
  shows "isRunningRaf (snd (forEach_callbacks h el cs w)) =
           (isRunningRaf w \<and> \<not> stop_called_in h el cs w) \<and>
         isPlaying (snd (forEach_callbacks h el cs w)) =
           (isPlaying w \<and> \<not> stop_called_in h el cs w) \<and>
         pending (snd (forEach_callbacks h el cs w)) =
           (if stop_called_in h el cs w then removeAll k (pending w) else pending w) \<and>
         lastUpdateTime (snd (forEach_callbacks h el cs w)) = lastUpdateTime w \<and>
         rafId (snd (forEach_callbacks h el cs w)) = Some k"
  using assms
proof (induction cs arbitrary: w)
  case Nil
  then show ?case by simp
next
  case (Cons c cs)
  let ?go = "case runCondition w of None \<Rightarrow> True | Some cond \<Rightarrow> cond (env w)"
  show ?case
  proof (cases ?go)
    case False
    then show ?thesis using Cons.IH[OF Cons.prems] by simp
  next
    case True
    let ?out = "snd (invoke h c (frame w, lastUpdateTime w, el) (env w))"
    let ?w1 = "snd (callCallback h el c w)"
    have f: "rafId ?w1 = Some k" "lastUpdateTime ?w1 = lastUpdateTime w"
      "isRunningRaf ?w1 = (isRunningRaf w \<and> \<not> stop_called ?out)"
      "isPlaying ?w1 = (isPlaying w \<and> \<not> stop_called ?out)"
      "pending ?w1 = (if stop_called ?out then removeAll k (pending w) else pending w)"
      "fst (callCallback h el c w) = (if raised ?out then Thrown else Normal)"
      using Cons.prems by (simp_all add: callCallback_eq stop_eq)
    note ih = Cons.IH[OF f(1)]
    show ?thesis
    proof (cases "raised ?out")
      case r: True
      then have "forEach_callbacks h el (c # cs) w = (Thrown, ?w1)"
        using True f(6) by (cases "callCallback h el c w") simp
      then show ?thesis using True r f by simp
    next
      case r: False
      then have "forEach_callbacks h el (c # cs) w = forEach_callbacks h el cs ?w1"
        using True f(6) by (cases "callCallback h el c w") simp
      then show ?thesis using True r f ih by auto
    qed
  qed
qed

lemma forEach_unchanged_tail:
  assumes "forEach_callbacks h el before w = (Normal, w1)"
    and "case runCondition w1 of None \<Rightarrow> True | Some cond \<Rightarrow> cond (env w1)"
    and "raised (snd (invoke h c (frame w1, lastUpdateTime w1, el) (env w1)))"
  shows "forEach_callbacks h el (before @ c # after) w = (Thrown, snd (callCallback h el c w1))"
  using assms by (simp add: forEach_append callCallback_eq)

lemma forEach_args:
  "frame (snd (forEach_callbacks h el cs w)) = frame w \<and>
   lastUpdateTime (snd (forEach_callbacks h el cs w)) = lastUpdateTime w"
proof (induction cs arbitrary: w)
  case Nil
  then show ?case by simp
next
  case (Cons c cs)
  obtain r w' where cc: "callCallback h el c w = (r, w')" by (cases "callCallback h el c w")
  have f: "frame w' = frame w" "lastUpdateTime w' = lastUpdateTime w"
    using callCallback_fields(2,3)[of h el c w] cc by simp_all
  show ?case
    using Cons.IH[of w] Cons.IH[of w'] cc f by (cases r) simp_all
qed

text \<open>
  C2, as amended. When a callback throws during a tick, the exception leaves the frame
  handler and \<^verbatim>\<open>lastUpdateTime\<close> is not advanced; the request for the next frame was
  issued before the iteration, so it stays outstanding and the scheduler goes on with
  the next frame, unless a callback called stop during the tick, which cancels it.
  More precisely, in a tick that runs the callbacks (\<^verbatim>\<open>lastUpdateTime\<close> is not 0 and
  the elapsed time exceeds the threshold), when the callbacks registered before a
  callback have returned, the run condition, if there is one, holds, and that callback
  throws, then the scheduler is left in the state it had right after the call of the
  throwing callback: the callbacks registered after it are not called in that tick.
\<close>

theorem throwing_callback_ends_the_tick:
  "(fst (onFrame h ts w) = Thrown \<longrightarrow>
      lastUpdateTime (snd (onFrame h ts w)) = lastUpdateTime w \<and>
      isRunningRaf (snd (onFrame h ts w)) =
        (\<not> stop_called_in h (time_now h (env w) - lastUpdateTime w) (callbacks w)
             (iteration_start h ts w)) \<and>
      pending (snd (onFrame h ts w)) =
        (if stop_called_in h (time_now h (env w) - lastUpdateTime w) (callbacks w)
              (iteration_start h ts w)
         then removeAll (nextHandle w) (pending w)
         else pending w @ [nextHandle w])) \<and>
   (lastUpdateTime w \<noteq> 0 \<and> threshold w < time_now h (env w) - lastUpdateTime w \<and>
    callbacks w = before @ c # after \<and>
    forEach_callbacks h (time_now h (env w) - lastUpdateTime w) before (iteration_start h ts w) =
      (Normal, w1) \<and>
    (case runCondition w1 of None \<Rightarrow> True | Some cond \<Rightarrow> cond (env w1)) \<and>
    raised (snd (invoke h c (tick_args h ts w) (env w1))) \<longrightarrow>
      onFrame h ts w =
        (Thrown, snd (callCallback h (time_now h (env w) - lastUpdateTime w) c w1)) \<and>
      env (snd (onFrame h ts w)) = fst (invoke h c (tick_args h ts w) (env w1)))"
proof -
  let ?el = "time_now h (env w) - lastUpdateTime w"
  let ?s = "iteration_start h ts w"
  have A: "lastUpdateTime (snd (onFrame h ts w)) = lastUpdateTime w \<and>
      isRunningRaf (snd (onFrame h ts w)) = (\<not> stop_called_in h ?el (callbacks w) ?s) \<and>
      pending (snd (onFrame h ts w)) =
        (if stop_called_in h ?el (callbacks w) ?s
         then removeAll (nextHandle w) (pending w)
         else pending w @ [nextHandle w])"
    if thrown: "fst (onFrame h ts w) = Thrown"
  proof -
    have nz: "lastUpdateTime w \<noteq> 0"
      using thrown onFrame_first[of w h ts] by auto
    have th: "threshold w < ?el"
    proof (rule ccontr)
      assume "\<not> threshold w < ?el"
      then have "onFrame h ts w = (Normal, iteration_start h ts w)"
        using nz by (rule onFrame_skip[rotated])
      then show False using thrown by simp
    qed
    obtain r w4 where fe: "forEach_callbacks h ?el (callbacks w) ?s = (r, w4)"
      by (cases "forEach_callbacks h ?el (callbacks w) ?s")
    have r: "r = Thrown"
      using thrown onFrame_run[OF nz th, of ts] fe by (cases r) simp_all
    then have res: "snd (onFrame h ts w) = w4"
      using onFrame_run[OF nz th, of ts] fe by simp
    have k: "rafId ?s = Some (nextHandle w)"
      by (simp add: iteration_start_def measured_fields requestFrame_fields)
    show ?thesis
      using forEach_monitor[OF k, of h ?el "callbacks w"] fe res
      by (simp add: iteration_start_fields)
  qed
  have B: "onFrame h ts w = (Thrown, snd (callCallback h ?el c w1)) \<and>
      env (snd (onFrame h ts w)) = fst (invoke h c (tick_args h ts w) (env w1))"
    if nz: "lastUpdateTime w \<noteq> 0" and th: "threshold w < ?el"
      and cs: "callbacks w = before @ c # after"
      and fe: "forEach_callbacks h ?el before ?s = (Normal, w1)"
      and go: "case runCondition w1 of None \<Rightarrow> True | Some cond \<Rightarrow> cond (env w1)"
      and ra: "raised (snd (invoke h c (tick_args h ts w) (env w1)))"
  proof -
    have args: "(frame w1, lastUpdateTime w1, ?el) = tick_args h ts w"
      using forEach_args[of h ?el before ?s] fe
      by (simp add: iteration_start_fields tick_args_def)
    have "forEach_callbacks h ?el (before @ c # after) ?s =
        (Thrown, snd (callCallback h ?el c w1))"
      using forEach_unchanged_tail[OF fe go] ra args by simp
    then have "onFrame h ts w = (Thrown, snd (callCallback h ?el c w1))"
      using onFrame_run[OF nz th, of ts] cs by simp
    then show ?thesis using args by (simp add: callCallback_fields)
  qed
  show ?thesis using A B by blast
qed

theorem throwing_callback_witness:
  "fst (onFrame (probe_host {2} {1}) 16
          ((at_time 116 (runWhen (\<lambda>e. True) (started (probe_host {2} {1}) [1, 2, 3::nat] 100)))
             \<lparr>pending := []\<rparr>)) = Thrown \<and>
   calls (env (snd (onFrame (probe_host {2} {1}) 16
          ((at_time 116 (runWhen (\<lambda>e. True) (started (probe_host {2} {1}) [1, 2, 3::nat] 100)))
             \<lparr>pending := []\<rparr>)))) = [1, 2] \<and>
   lastUpdateTime (snd (onFrame (probe_host {2} {1}) 16
          ((at_time 116 (runWhen (\<lambda>e. True) (started (probe_host {2} {1}) [1, 2, 3::nat] 100)))
             \<lparr>pending := []\<rparr>))) = 100 \<and>
   \<not> isRunningRaf (snd (onFrame (probe_host {2} {1}) 16
          ((at_time 116 (runWhen (\<lambda>e. True) (started (probe_host {2} {1}) [1, 2, 3::nat] 100)))
             \<lparr>pending := []\<rparr>))) \<and>
   pending (snd (onFrame (probe_host {2} {1}) 16
          ((at_time 116 (runWhen (\<lambda>e. True) (started (probe_host {2} {1}) [1, 2, 3::nat] 100)))
             \<lparr>pending := []\<rparr>))) = [] \<and>
   pending (snd (onFrame (probe_host {2} {}) 16
          ((at_time 116 (started (probe_host {2} {}) [1, 2, 3::nat] 100))\<lparr>pending := []\<rparr>))) = [1]"
  using throwing_callback_ends_the_tick[where h = "probe_host {2} {1}" and ts = 16
      and w = "(at_time 116 (runWhen (\<lambda>e. True) (started (probe_host {2} {1}) [1, 2, 3::nat] 100)))
                 \<lparr>pending := []\<rparr>"
      and before = "[1]" and c = 2 and after = "[3]"
      and ?w1.0 = "snd (forEach_callbacks (probe_host {2} {1}) 16 [1]
          (iteration_start (probe_host {2} {1}) 16
            ((at_time 116 (runWhen (\<lambda>e. True) (started (probe_host {2} {1}) [1, 2, 3::nat] 100)))
                 \<lparr>pending := []\<rparr>)))"]
    throwing_callback_ends_the_tick[where h = "probe_host {2} {}" and ts = 16
      and w = "(at_time 116 (started (probe_host {2} {}) [1, 2, 3::nat] 100))\<lparr>pending := []\<rparr>"
      and before = "[1]" and c = 2 and after = "[3]"
      and ?w1.0 = "snd (forEach_callbacks (probe_host {2} {}) 16 [1]
          (iteration_start (probe_host {2} {}) 16
            ((at_time 116 (started (probe_host {2} {}) [1, 2, 3::nat] 100))\<lparr>pending := []\<rparr>)))"]
  by (simp add: probe_defs stop_eq iteration_start_def)

text \<open>
  C2 as stated fails: of the callbacks 1, 2, 3, where 2 throws, the tick calls 1 and
  2 and never 3.
\<close>

theorem later_callbacks_skipped_after_throw:
  "calls (env (platformFrame (probe_host {2} {}) 16
      (at_time 116 (started (probe_host {2} {}) [1, 2, 3::nat] 100)))) = [1, 2]"
  by (simp add: probe_defs)

subsection \<open>Throttling\<close>

text \<open>
  C4, as amended. After \<^verbatim>\<open>setFps(n)\<close> with \<open>n > 0\<close>, a tick whose delta since the
  last executed tick is at most \<open>1000 / n\<close> is skipped: no callback is called, the
  last-tick time stays, and the next frame is requested. A tick whose delta exceeds
  \<open>1000 / n\<close> calls all callbacks in registration order and advances the last-tick
  time to the clock's reading after them, when no run condition is installed and no
  callback throws.
\<close>

theorem fps_throttle:
  assumes "0 < n" and "lastUpdateTime w \<noteq> 0"
  shows "fps (setFps n w) = n \<and>
    (time_now h (env w) - lastUpdateTime w \<le> 1000 / n \<longrightarrow>
       fst (onFrame h ts (setFps n w)) = Normal \<and>
       env (snd (onFrame h ts (setFps n w))) = env w \<and>
       lastUpdateTime (snd (onFrame h ts (setFps n w))) = lastUpdateTime w \<and>
       pending (snd (onFrame h ts (setFps n w))) = pending w @ [nextHandle w]) \<and>
    (1000 / n < time_now h (env w) - lastUpdateTime w \<and> runCondition w = None \<and>
     (\<forall>b\<in>set (callbacks w). \<forall>a e. \<not> raised (snd (invoke h b a e))) \<longrightarrow>
       fst (onFrame h ts (setFps n w)) = Normal \<and>
       env (snd (onFrame h ts (setFps n w))) =
         invoke_in_order h (tick_args h ts w) (callbacks w) (env w) \<and>
       lastUpdateTime (snd (onFrame h ts (setFps n w))) =
         time_now h (env (snd (onFrame h ts (setFps n w)))))"
proof -
  let ?w = "setFps n w"
  have f: "threshold ?w = 1000 / n" "lastUpdateTime ?w = lastUpdateTime w" "env ?w = env w"
    "pending ?w = pending w" "nextHandle ?w = nextHandle w" "callbacks ?w = callbacks w"
    "runCondition ?w = runCondition w" "fps ?w = n"
    using assms(1) by (simp_all add: setFps_def threshold_def)
  have skip: "fst (onFrame h ts ?w) = Normal \<and> env (snd (onFrame h ts ?w)) = env w \<and>
       lastUpdateTime (snd (onFrame h ts ?w)) = lastUpdateTime w \<and>
       pending (snd (onFrame h ts ?w)) = pending w @ [nextHandle w]"
    if "time_now h (env w) - lastUpdateTime w \<le> 1000 / n"
    using onFrame_skip[of ?w h ts] that assms(2) f by (simp add: iteration_start_fields)
  have run: "fst (onFrame h ts ?w) = Normal \<and>
       env (snd (onFrame h ts ?w)) = invoke_in_order h (tick_args h ts w) (callbacks w) (env w) \<and>
       lastUpdateTime (snd (onFrame h ts ?w)) = time_now h (env (snd (onFrame h ts ?w)))"
    if a: "1000 / n < time_now h (env w) - lastUpdateTime w" and b: "runCondition w = None"
      and c: "\<forall>b\<in>set (callbacks w). \<forall>a e. \<not> raised (snd (invoke h b a e))"
  proof -
    let ?s = "iteration_start h ts ?w"
    let ?el = "time_now h (env w) - lastUpdateTime w"
    obtain r w4 where fe: "forEach_callbacks h ?el (callbacks w) ?s = (r, w4)"
      by (cases "forEach_callbacks h ?el (callbacks w) ?s")
    have "runCondition ?s = None" using b f by (simp add: iteration_start_fields)
    from forEach_no_raise[OF this c, of ?el] fe
    have g: "r = Normal" "env w4 = invoke_in_order h (tick_args h ts w) (callbacks w) (env w)"
      by (simp_all add: iteration_start_fields f tick_args_def)
    have "onFrame h ts ?w =
        (Normal, record_first_time h (w4\<lparr>lastUpdateTime := time_now h (env w4)\<rparr>))"
      using onFrame_run[of ?w h ts] a assms(2) f fe g(1) by simp
    then show ?thesis using g(2) by (simp add: record_first_time_fields)
  qed
  show ?thesis using f(8) skip run by blast
qed

theorem fps_throttle_witness:
  "calls (env (snd (onFrame (probe_host {} {}) 16
      (setFps 10 (at_time 150 (started (probe_host {} {}) [1, 2::nat] 100)))))) = [] \<and>
   lastUpdateTime (snd (onFrame (probe_host {} {}) 16
      (setFps 10 (at_time 150 (started (probe_host {} {}) [1, 2::nat] 100))))) = 100 \<and>
   pending (snd (onFrame (probe_host {} {}) 16
      (setFps 10 (at_time 150 (started (probe_host {} {}) [1, 2::nat] 100))))) = [0, 1] \<and>
   calls (env (snd (onFrame (probe_host {} {}) 16
      (setFps 10 (at_time 250 (started (probe_host {} {}) [1, 2::nat] 100)))))) = [1, 2] \<and>
   lastUpdateTime (snd (onFrame (probe_host {} {}) 16
      (setFps 10 (at_time 250 (started (probe_host {} {}) [1, 2::nat] 100))))) = 250"
  using fps_throttle[where n = 10 and h = "probe_host {} {}" and ts = 16
        and w = "at_time 150 (started (probe_host {} {}) [1, 2::nat] 100)"]
      fps_throttle[where n = 10 and h = "probe_host {} {}" and ts = 16
        and w = "at_time 250 (started (probe_host {} {}) [1, 2::nat] 100)"]
  by (simp add: probe_defs)

text \<open>
  C4 as stated fails at the threshold itself: with \<^verbatim>\<open>setFps(10)\<close> a tick whose delta
  is exactly 100 ms is not below \<open>1000 / 10\<close>, and it is skipped all the same.
\<close>

theorem tick_at_the_threshold_is_skipped:
  "\<not> ((200::real) - 100 < 1000 / 10) \<and>
   clock (env (at_time 200 (setFps 10 (started (probe_host {} {}) [1, 2::nat] 100)))) -
     lastUpdateTime (at_time 200 (setFps 10 (started (probe_host {} {}) [1, 2::nat] 100))) = 200 - 100 \<and>
   calls (env (platformFrame (probe_host {} {}) 16
      (at_time 200 (setFps 10 (started (probe_host {} {}) [1, 2::nat] 100))))) = [] \<and>
   lastUpdateTime (platformFrame (probe_host {} {}) 16
      (at_time 200 (setFps 10 (started (probe_host {} {}) [1, 2::nat] 100)))) = 100"
  by (simp add: probe_defs)

subsection \<open>Outstanding frame requests\<close>

lemma one_request_stop: "one_request w \<Longrightarrow> one_request (stop w)"
  by (cases "rafId w"; cases "isRunningRaf w") (simp_all add: one_request_def stop_eq)

lemma one_request_callCallback: "one_request w \<Longrightarrow> one_request (snd (callCallback h el c w))"
proof -
  assume a: "one_request w"
  have "one_request (w\<lparr>env := e\<rparr>)" for e using a by (simp add: one_request_def)
  then show ?thesis by (simp add: callCallback_eq one_request_stop)
qed

lemma one_request_forEach: "one_request w \<Longrightarrow> one_request (snd (forEach_callbacks h el cs w))"
proof (induction cs arbitrary: w)
  case Nil
  then show ?case by simp
next
  case (Cons c cs)
  obtain r w' where cc: "callCallback h el c w = (r, w')" by (cases "callCallback h el c w")
  have "one_request w'" using one_request_callCallback[OF Cons.prems, of h el c] cc by simp
  then have "one_request (snd (forEach_callbacks h el cs w'))" by (rule Cons.IH)
  moreover have "one_request (snd (forEach_callbacks h el cs w))" using Cons.prems by (rule Cons.IH)
  ultimately show ?case using cc \<open>one_request w'\<close> by (cases r) simp_all
qed

lemma one_request_requestFrame:
  "one_request w \<Longrightarrow> \<not> isRunningRaf w \<Longrightarrow> one_request (requestFrame w)"
  by (simp add: one_request_def requestFrame_fields)

lemma one_request_measured: "one_request w \<Longrightarrow> one_request (measured el w)"
  by (simp add: one_request_def measured_fields)

lemma one_request_record: "one_request w \<Longrightarrow> one_request (record_first_time h w)"
  by (simp add: one_request_def record_first_time_fields)

lemma one_request_lastUpdateTime: "one_request w \<Longrightarrow> one_request (w\<lparr>lastUpdateTime := t\<rparr>)"
  by (simp add: one_request_def)

lemma one_request_animationLoop: "one_request w \<Longrightarrow> one_request (snd (animationLoop h w))"
proof -
  assume a: "one_request w"
  show ?thesis
  proof (cases "isRunningRaf w")
    case True
    then show ?thesis using a by (simp add: animationLoop_def)
  next
    case False
    let ?w2 = "requestFrame w"
    have w2: "one_request ?w2" using a False by (rule one_request_requestFrame)
    show ?thesis
    proof (cases "lastUpdateTime ?w2 = 0")
      case True
      then show ?thesis using False w2 by (simp add: animationLoop_def Let_def one_request_record)
    next
      case nz: False
      let ?el = "time_now h (env ?w2) - lastUpdateTime ?w2"
      let ?w3 = "measured ?el ?w2"
      have w3: "one_request ?w3" using w2 by (rule one_request_measured)
      obtain r w4 where fe: "forEach_callbacks h ?el (callbacks ?w3) ?w3 = (r, w4)"
        by (cases "forEach_callbacks h ?el (callbacks ?w3) ?w3")
      have w4: "one_request w4" using one_request_forEach[OF w3, of h ?el "callbacks ?w3"] fe by simp
      show ?thesis
        using False nz w3 w4 fe
        by (cases r) (simp_all add: animationLoop_def Let_def one_request_record one_request_lastUpdateTime)
    qed
  qed
qed

lemma one_request_start: "one_request w \<Longrightarrow> one_request (snd (start h force w))"
proof -
  assume a: "one_request w"
  have b: "one_request (w\<lparr>startTime := t\<rparr>)" for t using a by (simp add: one_request_def)
  have c: "one_request v \<Longrightarrow> one_request (v\<lparr>isPlaying := True\<rparr>)" for v :: "('a, 'b) world"
    by (simp add: one_request_def)
  obtain r w' where al: "animationLoop h (w\<lparr>startTime := time_now h (env w)\<rparr>) = (r, w')"
    by (cases "animationLoop h (w\<lparr>startTime := time_now h (env w)\<rparr>)")
  have "one_request w'" using one_request_animationLoop[OF b, of h "time_now h (env w)"] al by simp
  then show ?thesis using a al c by (cases r) (simp_all add: start_def)
qed

lemma one_request_deliver: "one_request w \<Longrightarrow> one_request (deliver h ts ks w)"
proof (induction ks arbitrary: w)
  case Nil
  then show ?case by simp
next
  case (Cons k ks)
  show ?case
  proof (cases "k \<in> set (pending w)")
    case True
    have "one_request (w\<lparr>pending := removeAll k (pending w), frame := Some ts, isRunningRaf := False\<rparr>)"
      using Cons.prems True
      by (cases "rafId w"; cases "isRunningRaf w") (simp_all add: one_request_def)
    then have "one_request (snd (onFrame h ts (w\<lparr>pending := removeAll k (pending w)\<rparr>)))"
      using one_request_animationLoop by (simp add: onFrame_def)
    then show ?thesis using True Cons.IH by simp
  next
    case False
    then show ?thesis using Cons by simp
  qed
qed

lemma one_request_setters:
  "one_request w \<Longrightarrow> one_request (watch c w)"
  "one_request w \<Longrightarrow> one_request (unwatch c w)"
  "one_request w \<Longrightarrow> one_request (runWhen p w)"
  "one_request w \<Longrightarrow> one_request (setFps n w)"
  "one_request w \<Longrightarrow> one_request (w\<lparr>env := e\<rparr>)"
  by (simp_all add: one_request_def watch_def unwatch_def runWhen_def setFps_def)

lemma one_request_perform: "one_request w \<Longrightarrow> one_request (perform h w a)"
  by (cases a)
    (simp_all add: one_request_setters one_request_stop one_request_start one_request_deliver
      dispose_def platformFrame_def)

lemma one_request_new: "one_request (new_Raf r e)"
  by (cases r) (simp_all add: one_request_def new_Raf_def watch_def)

lemma one_request_reachable: "one_request w \<Longrightarrow> one_request (foldl (perform h) w acts)"
  by (induction acts arbitrary: w) (simp_all add: one_request_perform)

text \<open>
  C9. Whatever sequence of \<^verbatim>\<open>watch\<close>, \<^verbatim>\<open>unwatch\<close>, \<^verbatim>\<open>runWhen\<close>, \<^verbatim>\<open>setFps\<close>,
  \<^verbatim>\<open>start\<close>, \<^verbatim>\<open>stop\<close>, \<^verbatim>\<open>dispose\<close>, platform frames and changes of the outside
  world a new scheduler goes through, with callbacks that may call stop or throw, at
  most one frame request is outstanding afterwards, at no moment were two
  outstanding at once (the monitor \<open>peak\<close> never exceeds one), and \<^verbatim>\<open>stop()\<close> leaves
  none outstanding.
\<close>

theorem at_most_one_pending_request:
  "length (pending (foldl (perform h) (new_Raf r e) acts)) \<le> 1 \<and>
   peak (foldl (perform h) (new_Raf r e) acts) \<le> 1 \<and>
   pending (stop (foldl (perform h) (new_Raf r e) acts)) = []"
proof -
  let ?w = "foldl (perform h) (new_Raf r e) acts"
  have w: "one_request ?w" using one_request_new by (rule one_request_reachable)
  then have "one_request (stop ?w)" by (rule one_request_stop)
  moreover have "\<not> isRunningRaf (stop ?w)" by (simp add: stop_eq)
  ultimately have "pending (stop ?w) = []" by (simp add: one_request_def)
  moreover have "length (pending ?w) \<le> 1 \<and> peak ?w \<le> 1"
    using w by (cases "rafId ?w"; cases "isRunningRaf ?w") (simp_all add: one_request_def)
  ultimately show ?thesis by simp
qed

subsection \<open>The first run of the loop\<close>

text \<open>
  C10, as amended. A run of the internal loop entered while \<^verbatim>\<open>lastUpdateTime\<close> is
  still 0 calls no registered callback and computes no delta; unless a request is
  already in flight it only requests a frame and records \<^verbatim>\<open>lastUpdateTime\<close>, and so
  does a platform frame handled while \<^verbatim>\<open>lastUpdateTime\<close> is 0. For a new scheduler
  that run is the one \<^verbatim>\<open>start()\<close> makes itself: when the clock reads non-zero at
  \<^verbatim>\<open>start()\<close> and has advanced by the first platform frame, the registered callback
  is called on that first platform frame.
\<close>

theorem first_loop_run_only_records_time:
  "(lastUpdateTime w = 0 \<longrightarrow>
      fst (animationLoop h w) = Normal \<and>
      env (snd (animationLoop h w)) = env w \<and>
      delta (snd (animationLoop h w)) = delta w \<and>
      lastUpdateTime (snd (animationLoop h w)) = (if isRunningRaf w then 0 else time_now h (env w))) \<and>
   (lastUpdateTime w = 0 \<longrightarrow>
      fst (onFrame h ts w) = Normal \<and>
      env (snd (onFrame h ts w)) = env w \<and>
      delta (snd (onFrame h ts w)) = delta w \<and>
      lastUpdateTime (snd (onFrame h ts w)) = time_now h (env w)) \<and>
   (time_now h e0 \<noteq> 0 \<and> time_now h e0 < time_now h e1 \<longrightarrow>
      env (snd (start h False (new_Raf (Some c) e0))) = e0 \<and>
      lastUpdateTime (snd (start h False (new_Raf (Some c) e0))) = time_now h e0 \<and>
      env (platformFrame h ts ((snd (start h False (new_Raf (Some c) e0)))\<lparr>env := e1\<rparr>)) =
        fst (invoke h c (Some ts, time_now h e0, time_now h e1 - time_now h e0) e1))"
proof -
  have A: "fst (animationLoop h w) = Normal \<and> env (snd (animationLoop h w)) = env w \<and>
      delta (snd (animationLoop h w)) = delta w \<and>
      lastUpdateTime (snd (animationLoop h w)) = (if isRunningRaf w then 0 else time_now h (env w))"
    if "lastUpdateTime w = 0" for w :: "('a, 'b) world"
    using that
    by (simp add: animationLoop_def Let_def requestFrame_fields record_first_time_fields)
  have B: "fst (onFrame h ts w) = Normal \<and> env (snd (onFrame h ts w)) = env w \<and>
      delta (snd (onFrame h ts w)) = delta w \<and>
      lastUpdateTime (snd (onFrame h ts w)) = time_now h (env w)"
    if "lastUpdateTime w = 0"
    using A[of "w\<lparr>frame := Some ts, isRunningRaf := False\<rparr>"] that by (simp add: onFrame_def)
  have C: "env (snd (start h False (new_Raf (Some c) e0))) = e0 \<and>
      lastUpdateTime (snd (start h False (new_Raf (Some c) e0))) = time_now h e0 \<and>
      env (platformFrame h ts ((snd (start h False (new_Raf (Some c) e0)))\<lparr>env := e1\<rparr>)) =
        fst (invoke h c (Some ts, time_now h e0, time_now h e1 - time_now h e0) e1)"
    if "time_now h e0 \<noteq> 0" "time_now h e0 < time_now h e1"
    using that
    by (simp add: raf_defs stop_eq split: prod.splits)
  show ?thesis using A B C by blast
qed

theorem first_loop_run_witness:
  "env (snd (animationLoop (probe_host {} {}) (new_Raf (Some (1::nat)) \<lparr>clock = 100, calls = []\<rparr>))) =
     \<lparr>clock = 100, calls = []\<rparr> \<and>
   lastUpdateTime (snd (animationLoop (probe_host {} {})
     (new_Raf (Some (1::nat)) \<lparr>clock = 100, calls = []\<rparr>))) = 100 \<and>
   lastUpdateTime (snd (onFrame (probe_host {} {}) 16
     (new_Raf (Some (1::nat)) \<lparr>clock = 100, calls = []\<rparr>))) = 100 \<and>
   calls (env (platformFrame (probe_host {} {}) 16
     ((snd (start (probe_host {} {}) False (new_Raf (Some (1::nat)) \<lparr>clock = 100, calls = []\<rparr>)))
        \<lparr>env := \<lparr>clock = 116, calls = []\<rparr>\<rparr>))) = [1]"
  using first_loop_run_only_records_time[where h = "probe_host {} {}" and ts = 16 and c = "1::nat"
      and w = "new_Raf (Some (1::nat)) \<lparr>clock = 100, calls = []\<rparr>"
      and ?e0.0 = "\<lparr>clock = 100, calls = []\<rparr>" and ?e1.0 = "\<lparr>clock = 116, calls = []\<rparr>"]
  by (simp add: probe_defs)

text \<open>
  C10 as stated fails: a scheduler started at clock 100 has recorded
  \<^verbatim>\<open>lastUpdateTime\<close> before any platform frame, and its first platform frame, at
  clock 116, computes the delta 16 and calls the registered callback.
\<close>

theorem first_frame_after_start_runs_callbacks:
  "lastUpdateTime (started (probe_host {} {}) [7::nat] 100) = 100 \<and>
   calls (env (platformFrame (probe_host {} {}) 16
     (at_time 116 (started (probe_host {} {}) [7::nat] 100)))) = [7] \<and>
   delta (platformFrame (probe_host {} {}) 16
     (at_time 116 (started (probe_host {} {}) [7::nat] 100))) = 16"
  by (simp add: probe_defs)

section \<open>Properties of the progress engine\<close>

lemmas mathf_defs = exact_mathf_def pow10_def round_def linear_easing_def
  clampAsProgress_def clampAsPercent_def

lemmas engine_defs = rafLoop_def progress_host_def new_RafProgress_def setPrecision_def
  setCurrentProgress_def easeTo_def set_on_new_def set_then_frame_def eased_then_set_def

lemma rafLoop_eq:
  "rafLoop m e =
     (let v = directional m (precision e)
                (ease m (currentProgress e) (targetProgress e) (easeAmount e) (easingFunction e));
          e4 = e\<lparr>currentProgress := v, emitted := emitted e @ [v]\<rparr>
      in if listenerThrows e v then (e4, \<lparr>stop_called = False, raised = True\<rparr>)
         else (case progressRafLoop e of
                 None \<Rightarrow> (e4, \<lparr>stop_called = (currentProgress e = v), raised = False\<rparr>)
               | Some cb \<Rightarrow>
                   if cb v
                   then (e4\<lparr>delivered := delivered e @ [v]\<rparr>,
                         \<lparr>stop_called = False, raised = True\<rparr>)
                   else (e4\<lparr>delivered := delivered e @ [v]\<rparr>,
                         \<lparr>stop_called = (currentProgress e = v), raised = False\<rparr>)))"
proof (cases "toFixed m (ease m (currentProgress e) (targetProgress e) (easeAmount e)
    (easingFunction e)) (precision e) < 0.5")
  case True
  then show ?thesis
    by (cases "progressRafLoop e") (simp_all add: rafLoop_def Let_def directional_def)
next
  case False
  then show ?thesis
    by (cases "progressRafLoop e") (simp_all add: rafLoop_def Let_def directional_def)
qed

lemma rafLoop_value:
  "currentProgress (fst (rafLoop m e)) =
     directional m (precision e)
       (ease m (currentProgress e) (targetProgress e) (easeAmount e) (easingFunction e))"
  by (cases "progressRafLoop e") (simp_all add: rafLoop_eq Let_def)


lemma rafLoop_fields:
  "targetProgress (fst (rafLoop m e)) = targetProgress e"
  "easeAmount (fst (rafLoop m e)) = easeAmount e"
  "precision (fst (rafLoop m e)) = precision e"
  "easingFunction (fst (rafLoop m e)) = easingFunction e"
  "clock (fst (rafLoop m e)) = clock e"
  "emitted (fst (rafLoop m e)) = emitted e @ [currentProgress (fst (rafLoop m e))]"
  by (cases "progressRafLoop e"; simp add: rafLoop_eq Let_def)+

lemma rafLoop_raised:
  "raised (snd (rafLoop m e)) =
     (listenerThrows e (currentProgress (fst (rafLoop m e))) \<or>
      (case progressRafLoop e of None \<Rightarrow> False
       | Some cb \<Rightarrow> cb (currentProgress (fst (rafLoop m e)))))"
  by (cases "progressRafLoop e") (simp_all add: rafLoop_eq Let_def)

lemma rafLoop_delivered:
  assumes "\<not> listenerThrows e (currentProgress (fst (rafLoop m e)))"
  shows "delivered (fst (rafLoop m e)) =
     (case progressRafLoop e of None \<Rightarrow> delivered e
      | Some cb \<Rightarrow> delivered e @ [currentProgress (fst (rafLoop m e))])"
proof -
  have "\<not> listenerThrows e (directional m (precision e)
      (ease m (currentProgress e) (targetProgress e) (easeAmount e) (easingFunction e)))"
    using assms by (simp add: rafLoop_value)
  then show ?thesis
    by (cases "progressRafLoop e") (simp_all add: rafLoop_eq Let_def)
qed

lemma rafLoop_stop:
  "stop_called (snd (rafLoop m e)) =
     (\<not> raised (snd (rafLoop m e)) \<and> currentProgress (fst (rafLoop m e)) = currentProgress e)"
  by (cases "progressRafLoop e") (auto simp add: rafLoop_eq Let_def)

subsection \<open>A tick of the engine's scheduler\<close>

lemma animationLoop_run:
  assumes "\<not> isRunningRaf w" and "lastUpdateTime w \<noteq> 0"
    and "threshold w < time_now h (env w) - lastUpdateTime w"
  shows "animationLoop h w =
     (case forEach_callbacks h (time_now h (env w) - lastUpdateTime w) (callbacks w)
             (measured (time_now h (env w) - lastUpdateTime w) (requestFrame w)) of
        (Thrown, w4) \<Rightarrow> (Thrown, w4)
      | (Normal, w4) \<Rightarrow>
          (Normal, record_first_time h (w4\<lparr>lastUpdateTime := time_now h (env w4)\<rparr>)))"
proof -
  have "threshold (requestFrame w) = threshold w"
    by (simp add: threshold_def requestFrame_fields)
  then show ?thesis
    using assms
    by (simp add: animationLoop_def Let_def requestFrame_fields measured_fields)
qed

lemma engine_loop:
  assumes "engine_world w" and "\<not> isRunningRaf w" and "lastUpdateTime w \<noteq> 0"
    and "lastUpdateTime w < clock (env w)"
  shows "env (snd (animationLoop (progress_host m) w)) = fst (rafLoop m (env w))"
    "fst (animationLoop (progress_host m) w) =
       (if raised (snd (rafLoop m (env w))) then Thrown else Normal)"
    "\<not> raised (snd (rafLoop m (env w))) \<Longrightarrow>
       isRunningRaf (snd (animationLoop (progress_host m) w)) =
         (currentProgress (fst (rafLoop m (env w))) \<noteq> currentProgress (env w))"
    "\<not> raised (snd (rafLoop m (env w))) \<Longrightarrow>
       isPlaying (snd (animationLoop (progress_host m) w)) =
         (isPlaying w \<and> currentProgress (fst (rafLoop m (env w))) \<noteq> currentProgress (env w))"
    "\<not> raised (snd (rafLoop m (env w))) \<Longrightarrow>
       pending (snd (animationLoop (progress_host m) w)) =
         (if currentProgress (fst (rafLoop m (env w))) = currentProgress (env w)
          then removeAll (nextHandle w) (pending w)
          else pending w @ [nextHandle w])"
proof -
  let ?h = "progress_host m"
  let ?el = "clock (env w) - lastUpdateTime w"
  let ?s = "measured ?el (requestFrame w)"
  let ?r = "rafLoop m (env w)"
  have t: "time_now ?h = clock" by (simp add: progress_host_def)
  have i: "invoke ?h RafLoop a e = rafLoop m e" for a e by (simp add: progress_host_def)
  have w: "callbacks w = [RafLoop]" "runCondition w = None" "threshold w = 0"
    using assms(1) by (simp_all add: engine_world_def threshold_def)
  have s: "env ?s = env w" "runCondition ?s = None" "isRunningRaf ?s" "isPlaying ?s = isPlaying w"
    "pending ?s = pending w @ [nextHandle w]" "rafId ?s = Some (nextHandle w)"
    by (simp_all add: measured_fields requestFrame_fields w)
  have cc: "callCallback ?h ?el RafLoop ?s =
      (if raised (snd ?r) then Thrown else Normal,
       if stop_called (snd ?r) then stop (?s\<lparr>env := fst ?r\<rparr>) else ?s\<lparr>env := fst ?r\<rparr>)"
    by (simp add: callCallback_eq i s)
  have fe: "forEach_callbacks ?h ?el [RafLoop] ?s = callCallback ?h ?el RafLoop ?s"
    by (cases "callCallback ?h ?el RafLoop ?s"; cases "fst (callCallback ?h ?el RafLoop ?s)")
      (simp_all add: s(2))
  have run: "animationLoop ?h w =
      (case callCallback ?h ?el RafLoop ?s of
        (Thrown, w4) \<Rightarrow> (Thrown, w4)
      | (Normal, w4) \<Rightarrow> (Normal, record_first_time ?h (w4\<lparr>lastUpdateTime := clock (env w4)\<rparr>)))"
    using animationLoop_run[of w ?h] assms(2,3,4) w(1,3) by (simp only: t fe) simp
  show "env (snd (animationLoop ?h w)) = fst ?r"
    by (cases "raised (snd ?r)"; cases "stop_called (snd ?r)")
      (simp_all add: run cc s record_first_time_fields stop_fields)
  show "fst (animationLoop ?h w) = (if raised (snd ?r) then Thrown else Normal)"
    by (cases "raised (snd ?r)") (simp_all add: run cc s)
  assume nr: "\<not> raised (snd ?r)"
  then have st: "stop_called (snd ?r) = (currentProgress (fst ?r) = currentProgress (env w))"
    by (simp add: rafLoop_stop)
  show "isRunningRaf (snd (animationLoop ?h w)) =
         (currentProgress (fst ?r) \<noteq> currentProgress (env w))"
    using nr st
    by (cases "stop_called (snd ?r)") (simp_all add: run cc s record_first_time_fields stop_eq)
  show "isPlaying (snd (animationLoop ?h w)) =
         (isPlaying w \<and> currentProgress (fst ?r) \<noteq> currentProgress (env w))"
    using nr st
    by (cases "stop_called (snd ?r)") (simp_all add: run cc s record_first_time_fields stop_eq)
  show "pending (snd (animationLoop ?h w)) =
         (if currentProgress (fst ?r) = currentProgress (env w)
          then removeAll (nextHandle w) (pending w)
          else pending w @ [nextHandle w])"
    using nr st
    by (cases "stop_called (snd ?r)") (simp_all add: run cc s record_first_time_fields stop_eq)
qed



lemma engine_frame_tick:
  assumes "engine_world w" and "lastUpdateTime w \<noteq> 0" and "lastUpdateTime w < clock (env w)"
  shows "env (snd (onFrame (progress_host m) ts w)) = fst (rafLoop m (env w))"
    "fst (onFrame (progress_host m) ts w) =
       (if raised (snd (rafLoop m (env w))) then Thrown else Normal)"
    "\<not> raised (snd (rafLoop m (env w))) \<Longrightarrow>
       isRunningRaf (snd (onFrame (progress_host m) ts w)) =
         (currentProgress (fst (rafLoop m (env w))) \<noteq> currentProgress (env w))"
    "\<not> raised (snd (rafLoop m (env w))) \<Longrightarrow>
       isPlaying (snd (onFrame (progress_host m) ts w)) =
         (isPlaying w \<and> currentProgress (fst (rafLoop m (env w))) \<noteq> currentProgress (env w))"
    "\<not> raised (snd (rafLoop m (env w))) \<Longrightarrow>
       pending (snd (onFrame (progress_host m) ts w)) =
         (if currentProgress (fst (rafLoop m (env w))) = currentProgress (env w)
          then removeAll (nextHandle w) (pending w)
          else pending w @ [nextHandle w])"
proof -
  let ?v = "w\<lparr>frame := Some ts, isRunningRaf := False\<rparr>"
  have v: "engine_world ?v" "\<not> isRunningRaf ?v" "lastUpdateTime ?v \<noteq> 0"
    "lastUpdateTime ?v < clock (env ?v)"
    using assms by (simp_all add: engine_world_def)
  note l = engine_loop[OF v, of m]
  show "env (snd (onFrame (progress_host m) ts w)) = fst (rafLoop m (env w))"
    using l(1) by (simp add: onFrame_def)
  show "fst (onFrame (progress_host m) ts w) =
       (if raised (snd (rafLoop m (env w))) then Thrown else Normal)"
    using l(2) by (simp add: onFrame_def)
  assume nr: "\<not> raised (snd (rafLoop m (env w)))"
  show "isRunningRaf (snd (onFrame (progress_host m) ts w)) =
         (currentProgress (fst (rafLoop m (env w))) \<noteq> currentProgress (env w))"
    using l(3) nr by (simp add: onFrame_def)
  show "isPlaying (snd (onFrame (progress_host m) ts w)) =
         (isPlaying w \<and> currentProgress (fst (rafLoop m (env w))) \<noteq> currentProgress (env w))"
    using l(4) nr by (simp add: onFrame_def)
  show "pending (snd (onFrame (progress_host m) ts w)) =
         (if currentProgress (fst (rafLoop m (env w))) = currentProgress (env w)
          then removeAll (nextHandle w) (pending w)
          else pending w @ [nextHandle w])"
    using l(5) nr by (simp add: onFrame_def)
qed

lemma engine_start_tick:
  assumes "engine_world w" and "force \<or> \<not> isPlaying w" and "\<not> isRunningRaf w"
    and "lastUpdateTime w \<noteq> 0" and "lastUpdateTime w < clock (env w)"
    and "\<not> raised (snd (rafLoop m (env w)))"
  shows "fst (start (progress_host m) force w) = Normal"
    "env (snd (start (progress_host m) force w)) = fst (rafLoop m (env w))"
    "isPlaying (snd (start (progress_host m) force w))"
    "isRunningRaf (snd (start (progress_host m) force w)) =
       (currentProgress (fst (rafLoop m (env w))) \<noteq> currentProgress (env w))"
    "pending (snd (start (progress_host m) force w)) =
       (if currentProgress (fst (rafLoop m (env w))) = currentProgress (env w)
        then removeAll (nextHandle w) (pending w)
        else pending w @ [nextHandle w])"
proof -
  let ?h = "progress_host m"
  let ?v = "w\<lparr>startTime := time_now ?h (env w)\<rparr>"
  have v: "engine_world ?v" "\<not> isRunningRaf ?v" "lastUpdateTime ?v \<noteq> 0"
    "lastUpdateTime ?v < clock (env ?v)"
    using assms by (simp_all add: engine_world_def)
  note l = engine_loop[OF v, of m]
  obtain w' where al: "animationLoop ?h ?v = (Normal, w')"
    using l(2) assms(6) by (cases "animationLoop ?h ?v") simp
  have st: "start ?h force w = (Normal, w'\<lparr>isPlaying := True\<rparr>)"
    using assms(2) al by (auto simp add: start_def)
  show "fst (start ?h force w) = Normal" by (simp add: st)
  show "env (snd (start ?h force w)) = fst (rafLoop m (env w))"
    using l(1) al by (simp add: st)
  show "isPlaying (snd (start ?h force w))" by (simp add: st)
  show "isRunningRaf (snd (start ?h force w)) =
       (currentProgress (fst (rafLoop m (env w))) \<noteq> currentProgress (env w))"
    using l(3) al assms(6) by (simp add: st)
  show "pending (snd (start ?h force w)) =
       (if currentProgress (fst (rafLoop m (env w))) = currentProgress (env w)
        then removeAll (nextHandle w) (pending w)
        else pending w @ [nextHandle w])"
    using l(5) al assms(6) by (simp add: st)
qed

text \<open>
  C7, as amended. Every tick of the engine emits a \<^verbatim>\<open>progressChange\<close> event carrying
  the value it has just computed and, unless a listener throws, calls the engine's
  callback, when there is one, with that value. A tick throws exactly when a listener
  or the callback does, and then it does not stop the scheduler. When nothing throws,
  the tick calls \<^verbatim>\<open>raf.stop()\<close> exactly when the new value equals the value the current
  progress held when the tick began, which is the previous tick's value unless
  \<^verbatim>\<open>setCurrentProgress\<close> replaced it in between; this is the only stop in a tick.
  The engine's scheduler runs a tick in a platform frame, and inside a call of
  \<^verbatim>\<open>start()\<close> that is forced or finds the scheduler not playing, with no frame in
  flight, in both cases when \<^verbatim>\<open>lastUpdateTime\<close> is not 0 and the clock has passed it.
  After such a tick in which nothing throws, delivered by a platform frame, the
  scheduler is stopped, with the frame request of the tick cancelled, when the value
  is unchanged, and otherwise it keeps playing with the next frame requested; after
  such a tick run inside \<^verbatim>\<open>start()\<close> the request is cancelled in the same case, and
  \<^verbatim>\<open>start()\<close> marks the scheduler as playing.
\<close>

theorem rafLoop_emits_and_stops_when_stable:
  "emitted (fst (rafLoop m e)) = emitted e @ [currentProgress (fst (rafLoop m e))] \<and>
   (\<not> listenerThrows e (currentProgress (fst (rafLoop m e))) \<longrightarrow>
      delivered (fst (rafLoop m e)) =
        (case progressRafLoop e of None \<Rightarrow> delivered e
         | Some cb \<Rightarrow> delivered e @ [currentProgress (fst (rafLoop m e))])) \<and>
   raised (snd (rafLoop m e)) =
     (listenerThrows e (currentProgress (fst (rafLoop m e))) \<or>
      (case progressRafLoop e of None \<Rightarrow> False
       | Some cb \<Rightarrow> cb (currentProgress (fst (rafLoop m e))))) \<and>
   stop_called (snd (rafLoop m e)) =
     (\<not> raised (snd (rafLoop m e)) \<and> currentProgress (fst (rafLoop m e)) = currentProgress e) \<and>
   (engine_world w \<and> lastUpdateTime w \<noteq> 0 \<and> lastUpdateTime w < clock (env w) \<and>
    \<not> raised (snd (rafLoop m (env w))) \<longrightarrow>
      fst (onFrame (progress_host m) ts w) = Normal \<and>
      env (snd (onFrame (progress_host m) ts w)) = fst (rafLoop m (env w)) \<and>
      isRunningRaf (snd (onFrame (progress_host m) ts w)) =
        (currentProgress (fst (rafLoop m (env w))) \<noteq> currentProgress (env w)) \<and>
      isPlaying (snd (onFrame (progress_host m) ts w)) =
        (isPlaying w \<and> currentProgress (fst (rafLoop m (env w))) \<noteq> currentProgress (env w)) \<and>
      pending (snd (onFrame (progress_host m) ts w)) =
        (if currentProgress (fst (rafLoop m (env w))) = currentProgress (env w)
         then removeAll (nextHandle w) (pending w)
         else pending w @ [nextHandle w])) \<and>
   (engine_world w \<and> (force \<or> \<not> isPlaying w) \<and> \<not> isRunningRaf w \<and>
    lastUpdateTime w \<noteq> 0 \<and> lastUpdateTime w < clock (env w) \<and>
    \<not> raised (snd (rafLoop m (env w))) \<longrightarrow>
      fst (start (progress_host m) force w) = Normal \<and>
      env (snd (start (progress_host m) force w)) = fst (rafLoop m (env w)) \<and>
      isPlaying (snd (start (progress_host m) force w)) \<and>
      isRunningRaf (snd (start (progress_host m) force w)) =
        (currentProgress (fst (rafLoop m (env w))) \<noteq> currentProgress (env w)) \<and>
      pending (snd (start (progress_host m) force w)) =
        (if currentProgress (fst (rafLoop m (env w))) = currentProgress (env w)
         then removeAll (nextHandle w) (pending w)
         else pending w @ [nextHandle w]))"
proof -
  have A: "emitted (fst (rafLoop m e)) = emitted e @ [currentProgress (fst (rafLoop m e))]"
    by (rule rafLoop_fields(6))
  have B: "\<not> listenerThrows e (currentProgress (fst (rafLoop m e))) \<longrightarrow>
      delivered (fst (rafLoop m e)) =
        (case progressRafLoop e of None \<Rightarrow> delivered e
         | Some cb \<Rightarrow> delivered e @ [currentProgress (fst (rafLoop m e))])"
    using rafLoop_delivered[of e m] by (rule impI)
  have C: "raised (snd (rafLoop m e)) =
     (listenerThrows e (currentProgress (fst (rafLoop m e))) \<or>
      (case progressRafLoop e of None \<Rightarrow> False
       | Some cb \<Rightarrow> cb (currentProgress (fst (rafLoop m e)))))"
    by (rule rafLoop_raised)
  have D: "stop_called (snd (rafLoop m e)) =
     (\<not> raised (snd (rafLoop m e)) \<and> currentProgress (fst (rafLoop m e)) = currentProgress e)"
    by (rule rafLoop_stop)
  have E: "engine_world w \<and> lastUpdateTime w \<noteq> 0 \<and> lastUpdateTime w < clock (env w) \<and>
    \<not> raised (snd (rafLoop m (env w))) \<longrightarrow>
      fst (onFrame (progress_host m) ts w) = Normal \<and>
      env (snd (onFrame (progress_host m) ts w)) = fst (rafLoop m (env w)) \<and>
      isRunningRaf (snd (onFrame (progress_host m) ts w)) =
        (currentProgress (fst (rafLoop m (env w))) \<noteq> currentProgress (env w)) \<and>
      isPlaying (snd (onFrame (progress_host m) ts w)) =
        (isPlaying w \<and> currentProgress (fst (rafLoop m (env w))) \<noteq> currentProgress (env w)) \<and>
      pending (snd (onFrame (progress_host m) ts w)) =
        (if currentProgress (fst (rafLoop m (env w))) = currentProgress (env w)
         then removeAll (nextHandle w) (pending w)
         else pending w @ [nextHandle w])"
  proof (intro impI)
    assume h: "engine_world w \<and> lastUpdateTime w \<noteq> 0 \<and> lastUpdateTime w < clock (env w) \<and>
      \<not> raised (snd (rafLoop m (env w)))"
    then have a: "engine_world w" "lastUpdateTime w \<noteq> 0" "lastUpdateTime w < clock (env w)"
      and nr: "\<not> raised (snd (rafLoop m (env w)))" by simp_all
    show "fst (onFrame (progress_host m) ts w) = Normal \<and>
      env (snd (onFrame (progress_host m) ts w)) = fst (rafLoop m (env w)) \<and>
      isRunningRaf (snd (onFrame (progress_host m) ts w)) =
        (currentProgress (fst (rafLoop m (env w))) \<noteq> currentProgress (env w)) \<and>
      isPlaying (snd (onFrame (progress_host m) ts w)) =
        (isPlaying w \<and> currentProgress (fst (rafLoop m (env w))) \<noteq> currentProgress (env w)) \<and>
      pending (snd (onFrame (progress_host m) ts w)) =
        (if currentProgress (fst (rafLoop m (env w))) = currentProgress (env w)
         then removeAll (nextHandle w) (pending w)
         else pending w @ [nextHandle w])"
      using engine_frame_tick(1,2)[OF a, of m ts] engine_frame_tick(3,4,5)[OF a nr, of ts] nr
      by simp
  qed
  have F: "engine_world w \<and> (force \<or> \<not> isPlaying w) \<and> \<not> isRunningRaf w \<and>
    lastUpdateTime w \<noteq> 0 \<and> lastUpdateTime w < clock (env w) \<and>
    \<not> raised (snd (rafLoop m (env w))) \<longrightarrow>
      fst (start (progress_host m) force w) = Normal \<and>
      env (snd (start (progress_host m) force w)) = fst (rafLoop m (env w)) \<and>
      isPlaying (snd (start (progress_host m) force w)) \<and>
      isRunningRaf (snd (start (progress_host m) force w)) =
        (currentProgress (fst (rafLoop m (env w))) \<noteq> currentProgress (env w)) \<and>
      pending (snd (start (progress_host m) force w)) =
        (if currentProgress (fst (rafLoop m (env w))) = currentProgress (env w)
         then removeAll (nextHandle w) (pending w)
         else pending w @ [nextHandle w])"
  proof (intro impI)
    assume h: "engine_world w \<and> (force \<or> \<not> isPlaying w) \<and> \<not> isRunningRaf w \<and>
      lastUpdateTime w \<noteq> 0 \<and> lastUpdateTime w < clock (env w) \<and>
      \<not> raised (snd (rafLoop m (env w)))"
    then have a: "engine_world w" "force \<or> \<not> isPlaying w" "\<not> isRunningRaf w"
      "lastUpdateTime w \<noteq> 0" "lastUpdateTime w < clock (env w)"
      "\<not> raised (snd (rafLoop m (env w)))" by simp_all
    show "fst (start (progress_host m) force w) = Normal \<and>
      env (snd (start (progress_host m) force w)) = fst (rafLoop m (env w)) \<and>
      isPlaying (snd (start (progress_host m) force w)) \<and>
      isRunningRaf (snd (start (progress_host m) force w)) =
        (currentProgress (fst (rafLoop m (env w))) \<noteq> currentProgress (env w)) \<and>
      pending (snd (start (progress_host m) force w)) =
        (if currentProgress (fst (rafLoop m (env w))) = currentProgress (env w)
         then removeAll (nextHandle w) (pending w)
         else pending w @ [nextHandle w])"
      using engine_start_tick[OF a] by simp
  qed
  show ?thesis by (intro conjI) (rule A B C D E F)+
qed

lemmas engine_eval = engine_defs raf_defs stop_eq mathf_defs

subsection \<open>The engines of the examples\<close>

lemma host_exact:
  "invoke (progress_host exact_mathf) RafLoop a e = rafLoop exact_mathf e"
  "time_now (progress_host exact_mathf) = clock"
  by (simp_all add: progress_host_def)

lemmas frame_eval = at_time_def platformFrame_def onFrame_def animationLoop_def start_def
  requestFrame_def requestAnimationFrame_def measured_def threshold_def
  record_first_time_def callCallback_def stop_eq host_exact Let_def

lemma rafLoop_settled_value:
  "rafLoop exact_mathf
     \<lparr>clock = t, currentProgress = 1 / 4, targetProgress = 1 / 4, easeAmount = 1,
      easingFunction = linear_easing, precision = 5, progressRafLoop = None,
      listenerThrows = (\<lambda>v. False), emitted = es, delivered = []\<rparr> =
   (\<lparr>clock = t, currentProgress = 1 / 4, targetProgress = 1 / 4, easeAmount = 1,
      easingFunction = linear_easing, precision = 5, progressRafLoop = None,
      listenerThrows = (\<lambda>v. False), emitted = es @ [1 / 4], delivered = []\<rparr>,
    \<lparr>stop_called = True, raised = False\<rparr>)"
  "rafLoop exact_mathf
     \<lparr>clock = t, currentProgress = 3 / 4, targetProgress = 3 / 4, easeAmount = 1,
      easingFunction = linear_easing, precision = 5, progressRafLoop = None,
      listenerThrows = (\<lambda>v. False), emitted = es, delivered = []\<rparr> =
   (\<lparr>clock = t, currentProgress = 3 / 4, targetProgress = 3 / 4, easeAmount = 1,
      easingFunction = linear_easing, precision = 5, progressRafLoop = None,
      listenerThrows = (\<lambda>v. False), emitted = es @ [3 / 4], delivered = []\<rparr>,
    \<lparr>stop_called = True, raised = False\<rparr>)"
  by (simp_all add: rafLoop_def Let_def mathf_defs)

lemma rafLoop_moving_value:
  "rafLoop exact_mathf
     \<lparr>clock = t, currentProgress = 1929 / 15625, targetProgress = 1929 / 15625,
      easeAmount = 1, easingFunction = linear_easing, precision = 5, progressRafLoop = None,
      listenerThrows = (\<lambda>v. False), emitted = es, delivered = []\<rparr> =
   (\<lparr>clock = t, currentProgress = 617 / 5000, targetProgress = 1929 / 15625,
      easeAmount = 1, easingFunction = linear_easing, precision = 5, progressRafLoop = None,
      listenerThrows = (\<lambda>v. False), emitted = es @ [617 / 5000], delivered = []\<rparr>,
    \<lparr>stop_called = False, raised = False\<rparr>)"
  "rafLoop exact_mathf
     \<lparr>clock = t, currentProgress = 0, targetProgress = 1 / 2, easeAmount = 1 / 2,
      easingFunction = linear_easing, precision = 5, progressRafLoop = None,
      listenerThrows = (\<lambda>v. False), emitted = es, delivered = []\<rparr> =
   (\<lparr>clock = t, currentProgress = 1 / 4, targetProgress = 1 / 2, easeAmount = 1 / 2,
      easingFunction = linear_easing, precision = 5, progressRafLoop = None,
      listenerThrows = (\<lambda>v. False), emitted = es @ [1 / 4], delivered = []\<rparr>,
    \<lparr>stop_called = False, raised = False\<rparr>)"
  by (simp_all add: rafLoop_def Let_def mathf_defs)

lemma set_on_new_value:
  "set_on_new p =
     \<lparr>rafId = Some 0, frame = None, lastUpdateTime = 100, delta = 0, fps = 0,
      currentFps = Some 0, isPlaying = True, callbacks = [RafLoop],
      runCondition = None, isRunningRaf = True, elaspedTime = 0,
      startTime = 100, pending = [0], nextHandle = 1, peak = 1,
      env = \<lparr>clock = 100, currentProgress = clampAsProgress p, targetProgress = clampAsProgress p,
             easeAmount = 1, easingFunction = linear_easing, precision = 5,
             progressRafLoop = None, listenerThrows = (\<lambda>v. False),
             emitted = [], delivered = []\<rparr>\<rparr>"
  by (simp add: set_on_new_def setCurrentProgress_def new_RafProgress_def progress_host_def
      exact_mathf_def raf_defs)

lemma set_then_frame_value:
  "set_then_frame (1 / 4) =
     \<lparr>rafId = Some 1, frame = Some 16, lastUpdateTime = 116, delta = 16, fps = 0,
      currentFps = Some (125 / 2), isPlaying = False, callbacks = [RafLoop],
      runCondition = None, isRunningRaf = False, elaspedTime = 2 / 125,
      startTime = 100, pending = [], nextHandle = 2, peak = 1,
      env = \<lparr>clock = 116, currentProgress = 1 / 4, targetProgress = 1 / 4,
             easeAmount = 1, easingFunction = linear_easing, precision = 5,
             progressRafLoop = None, listenerThrows = (\<lambda>v. False),
             emitted = [1 / 4], delivered = []\<rparr>\<rparr>"
  "set_then_frame (1929 / 15625) =
     \<lparr>rafId = Some 1, frame = Some 16, lastUpdateTime = 116, delta = 16, fps = 0,
      currentFps = Some (125 / 2), isPlaying = True, callbacks = [RafLoop],
      runCondition = None, isRunningRaf = True, elaspedTime = 2 / 125,
      startTime = 100, pending = [1], nextHandle = 2, peak = 1,
      env = \<lparr>clock = 116, currentProgress = 617 / 5000, targetProgress = 1929 / 15625,
             easeAmount = 1, easingFunction = linear_easing, precision = 5,
             progressRafLoop = None, listenerThrows = (\<lambda>v. False),
             emitted = [617 / 5000], delivered = []\<rparr>\<rparr>"
  by (simp_all add: set_then_frame_def set_on_new_value clampAsProgress_def frame_eval
      rafLoop_settled_value rafLoop_moving_value)

lemma eased_then_set_value:
  "eased_then_set =
     \<lparr>rafId = Some 2, frame = Some 32, lastUpdateTime = 132, delta = 16, fps = 0,
      currentFps = Some (125 / 2), isPlaying = False, callbacks = [RafLoop],
      runCondition = None, isRunningRaf = False, elaspedTime = 4 / 125,
      startTime = 100, pending = [], nextHandle = 3, peak = 1,
      env = \<lparr>clock = 132, currentProgress = 3 / 4, targetProgress = 3 / 4,
             easeAmount = 1, easingFunction = linear_easing, precision = 5,
             progressRafLoop = None, listenerThrows = (\<lambda>v. False),
             emitted = [1 / 4, 3 / 4], delivered = []\<rparr>\<rparr>"
proof -
  let ?m = "exact_mathf"
  let ?A = "\<lparr>rafId = Some 0, frame = None, lastUpdateTime = 100, delta = 0, fps = 0,
         currentFps = Some 0, isPlaying = True, callbacks = [RafLoop],
         runCondition = None, isRunningRaf = True, elaspedTime = 0,
         startTime = 100, pending = [0], nextHandle = 1, peak = 1,
         env = \<lparr>clock = 100, currentProgress = 0, targetProgress = 0.5,
                easeAmount = 0.5, easingFunction = linear_easing, precision = 5,
                progressRafLoop = None, listenerThrows = (\<lambda>v. False),
                emitted = [], delivered = []\<rparr>\<rparr>"
  let ?B = "\<lparr>rafId = Some 1, frame = Some 16, lastUpdateTime = 116, delta = 16, fps = 0,
         currentFps = Some (125 / 2), isPlaying = True, callbacks = [RafLoop],
         runCondition = None, isRunningRaf = True, elaspedTime = 2 / 125,
         startTime = 100, pending = [1], nextHandle = 2, peak = 1,
         env = \<lparr>clock = 116, currentProgress = 0.25, targetProgress = 0.5,
                easeAmount = 0.5, easingFunction = linear_easing, precision = 5,
                progressRafLoop = None, listenerThrows = (\<lambda>v. False),
                emitted = [0.25], delivered = []\<rparr>\<rparr>"
  let ?C = "\<lparr>rafId = Some 1, frame = Some 16, lastUpdateTime = 116, delta = 16, fps = 0,
         currentFps = Some (125 / 2), isPlaying = True, callbacks = [RafLoop],
         runCondition = None, isRunningRaf = True, elaspedTime = 2 / 125,
         startTime = 100, pending = [1], nextHandle = 2, peak = 1,
         env = \<lparr>clock = 116, currentProgress = 0.75, targetProgress = 0.75,
                easeAmount = 1, easingFunction = linear_easing, precision = 5,
                progressRafLoop = None, listenerThrows = (\<lambda>v. False),
                emitted = [0.25], delivered = []\<rparr>\<rparr>"
  have a: "snd (easeTo ?m 0.5 0.5 None (new_RafProgress ?m None 100)) = ?A"
    by (simp add: easeTo_def new_RafProgress_def progress_host_def exact_mathf_def raf_defs
        clampAsProgress_def clampAsPercent_def)
  have b: "platformFrame (progress_host ?m) 16 (at_time 116 ?A) = ?B"
    by (simp add: frame_eval rafLoop_moving_value)
  have c: "snd (setCurrentProgress ?m 0.75 ?B) = ?C"
    by (simp add: setCurrentProgress_def start_def clampAsProgress_def)
  have d: "platformFrame (progress_host ?m) 32 (at_time 132 ?C) =
     \<lparr>rafId = Some 2, frame = Some 32, lastUpdateTime = 132, delta = 16, fps = 0,
      currentFps = Some (125 / 2), isPlaying = False, callbacks = [RafLoop],
      runCondition = None, isRunningRaf = False, elaspedTime = 4 / 125,
      startTime = 100, pending = [], nextHandle = 3, peak = 1,
      env = \<lparr>clock = 132, currentProgress = 3 / 4, targetProgress = 3 / 4,
             easeAmount = 1, easingFunction = linear_easing, precision = 5,
             progressRafLoop = None, listenerThrows = (\<lambda>v. False),
             emitted = [1 / 4, 3 / 4], delivered = []\<rparr>\<rparr>"
    by (simp add: frame_eval rafLoop_settled_value)
  show ?thesis by (simp only: eased_then_set_def a b c d)
qed

theorem rafLoop_emits_and_stops_witness:
  "emitted (env (snd (onFrame (progress_host exact_mathf) 16
      ((at_time 116 (set_on_new (1 / 4)))\<lparr>pending := []\<rparr>)))) = [1 / 4] \<and>
   delivered (env (snd (onFrame (progress_host exact_mathf) 16
      ((at_time 116 (set_on_new (1 / 4)))\<lparr>pending := []\<rparr>)))) = [] \<and>
   \<not> isRunningRaf (snd (onFrame (progress_host exact_mathf) 16
      ((at_time 116 (set_on_new (1 / 4)))\<lparr>pending := []\<rparr>))) \<and>
   \<not> isPlaying (snd (onFrame (progress_host exact_mathf) 16
      ((at_time 116 (set_on_new (1 / 4)))\<lparr>pending := []\<rparr>))) \<and>
   pending (snd (onFrame (progress_host exact_mathf) 16
      ((at_time 116 (set_on_new (1 / 4)))\<lparr>pending := []\<rparr>))) = [] \<and>
   emitted (env (snd (start (progress_host exact_mathf) False
      (at_time 132 (set_then_frame (1 / 4)))))) = [1 / 4, 1 / 4] \<and>
   isPlaying (snd (start (progress_host exact_mathf) False
      (at_time 132 (set_then_frame (1 / 4))))) \<and>
   \<not> isRunningRaf (snd (start (progress_host exact_mathf) False
      (at_time 132 (set_then_frame (1 / 4))))) \<and>
   pending (snd (start (progress_host exact_mathf) False
      (at_time 132 (set_then_frame (1 / 4))))) = []"
proof -
  let ?m = "exact_mathf"
  let ?W = "\<lparr>rafId = Some 0, frame = None, lastUpdateTime = 100, delta = 0, fps = 0,
         currentFps = Some 0, isPlaying = True, callbacks = [RafLoop],
         runCondition = None, isRunningRaf = True, elaspedTime = 0,
         startTime = 100, pending = [], nextHandle = 1, peak = 1,
         env = \<lparr>clock = 116, currentProgress = 1 / 4, targetProgress = 1 / 4,
                easeAmount = 1, easingFunction = linear_easing, precision = 5,
                progressRafLoop = None, listenerThrows = (\<lambda>v. False),
                emitted = [], delivered = []\<rparr>\<rparr>"
  let ?V = "\<lparr>rafId = Some 1, frame = Some 16, lastUpdateTime = 116, delta = 16, fps = 0,
         currentFps = Some (125 / 2), isPlaying = False, callbacks = [RafLoop],
         runCondition = None, isRunningRaf = False, elaspedTime = 2 / 125,
         startTime = 100, pending = [], nextHandle = 2, peak = 1,
         env = \<lparr>clock = 132, currentProgress = 1 / 4, targetProgress = 1 / 4,
                easeAmount = 1, easingFunction = linear_easing, precision = 5,
                progressRafLoop = None, listenerThrows = (\<lambda>v. False),
                emitted = [1 / 4], delivered = []\<rparr>\<rparr>"
  have w: "(at_time 116 (set_on_new (1 / 4)))\<lparr>pending := []\<rparr> = ?W"
    by (simp add: set_on_new_value clampAsProgress_def at_time_def)
  have v: "at_time 132 (set_then_frame (1 / 4)) = ?V"
    by (simp add: set_then_frame_value at_time_def)
  have pw: "engine_world ?W \<and> lastUpdateTime ?W \<noteq> 0 \<and> lastUpdateTime ?W < clock (env ?W) \<and>
      \<not> raised (snd (rafLoop ?m (env ?W)))"
    by (simp add: engine_world_def rafLoop_settled_value)
  have pv: "engine_world ?V \<and> (False \<or> \<not> isPlaying ?V) \<and> \<not> isRunningRaf ?V \<and>
      lastUpdateTime ?V \<noteq> 0 \<and> lastUpdateTime ?V < clock (env ?V) \<and>
      \<not> raised (snd (rafLoop ?m (env ?V)))"
    by (simp add: engine_world_def rafLoop_settled_value)
  note cw = rafLoop_emits_and_stops_when_stable[where m = ?m and ts = 16 and w = ?W,
      THEN conjunct2, THEN conjunct2, THEN conjunct2, THEN conjunct2, THEN conjunct1,
      THEN mp, OF pw]
  note cv = rafLoop_emits_and_stops_when_stable[where m = ?m and force = False and w = ?V,
      THEN conjunct2, THEN conjunct2, THEN conjunct2, THEN conjunct2, THEN conjunct2,
      THEN mp, OF pv]
  show ?thesis
    unfolding w v using cw cv by (simp add: rafLoop_settled_value)
qed

text \<open>
  C7 as stated fails: an engine eased towards 0.5 ticks with the value 0.25; after
  \<^verbatim>\<open>setCurrentProgress(0.75)\<close> its next tick computes 0.75, which differs from the
  previous tick's value, and stops the scheduler all the same.
\<close>

theorem stops_although_the_tick_value_changed:
  "emitted (env eased_then_set) = [0.25, 0.75] \<and>
   \<not> isPlaying eased_then_set \<and>
   \<not> isRunningRaf eased_then_set \<and>
   pending eased_then_set = []"
  by (simp add: eased_then_set_value)

subsection \<open>The scheduler of an engine stays private\<close>

lemma engine_world_stop: "engine_world w \<Longrightarrow> engine_world (stop w)"
  by (simp add: engine_world_def stop_fields)

lemma engine_world_env: "engine_world w \<Longrightarrow> engine_world (w\<lparr>env := e\<rparr>)"
  by (simp add: engine_world_def)

lemma engine_world_callCallback:
  "engine_world w \<Longrightarrow> engine_world (snd (callCallback h el c w))"
  by (simp add: callCallback_eq engine_world_stop engine_world_env)

lemma engine_world_forEach:
  "engine_world w \<Longrightarrow> engine_world (snd (forEach_callbacks h el cs w))"
proof (induction cs arbitrary: w)
  case Nil
  then show ?case by simp
next
  case (Cons c cs)
  obtain r w' where cc: "callCallback h el c w = (r, w')" by (cases "callCallback h el c w")
  have w': "engine_world w'" using engine_world_callCallback[OF Cons.prems, of h el c] cc by simp
  then have "engine_world (snd (forEach_callbacks h el cs w'))" by (rule Cons.IH)
  moreover have "engine_world (snd (forEach_callbacks h el cs w))"
    using Cons.prems by (rule Cons.IH)
  ultimately show ?case using cc w' by (cases r) simp_all
qed

lemma engine_world_animationLoop:
  assumes a: "engine_world w"
  shows "engine_world (snd (animationLoop h w))"
proof (cases "isRunningRaf w")
  case True
  then show ?thesis using a by (simp add: animationLoop_def)
next
  case False
  let ?w2 = "requestFrame w"
  have w2: "engine_world ?w2" using a by (simp add: engine_world_def requestFrame_fields)
  have rec: "engine_world v \<Longrightarrow> engine_world (record_first_time h v)"
    for v :: "(engine_callback, 'a RafProgress) world"
    by (simp add: engine_world_def record_first_time_def)
  have lut: "engine_world v \<Longrightarrow> engine_world (v\<lparr>lastUpdateTime := t\<rparr>)"
    for v :: "(engine_callback, 'a RafProgress) world" and t
    by (simp add: engine_world_def)
  show ?thesis
  proof (cases "lastUpdateTime ?w2 = 0")
    case True
    then show ?thesis using False w2 by (simp add: animationLoop_def Let_def rec)
  next
    case nz: False
    let ?el = "time_now h (env ?w2) - lastUpdateTime ?w2"
    let ?w3 = "measured ?el ?w2"
    have w3: "engine_world ?w3" using w2 by (simp add: engine_world_def measured_fields)
    obtain r w4 where fe: "forEach_callbacks h ?el (callbacks ?w3) ?w3 = (r, w4)"
      by (cases "forEach_callbacks h ?el (callbacks ?w3) ?w3")
    have w4: "engine_world w4"
      using engine_world_forEach[OF w3, of h ?el "callbacks ?w3"] fe by simp
    show ?thesis
      using False nz w3 w4 fe
      by (cases r) (simp_all add: animationLoop_def Let_def rec lut)
  qed
qed

lemma engine_world_start:
  assumes a: "engine_world w"
  shows "engine_world (snd (start h force w))"
proof -
  have b: "engine_world (w\<lparr>startTime := t\<rparr>)" for t using a by (simp add: engine_world_def)
  have c: "engine_world v \<Longrightarrow> engine_world (v\<lparr>isPlaying := True\<rparr>)"
    for v :: "(engine_callback, 'a RafProgress) world"
    by (simp add: engine_world_def)
  obtain r w' where al: "animationLoop h (w\<lparr>startTime := time_now h (env w)\<rparr>) = (r, w')"
    by (cases "animationLoop h (w\<lparr>startTime := time_now h (env w)\<rparr>)")
  have "engine_world w'"
    using engine_world_animationLoop[OF b, of h "time_now h (env w)"] al by simp
  then show ?thesis using a al c by (cases r) (simp_all add: start_def)
qed

lemma engine_world_deliver: "engine_world w \<Longrightarrow> engine_world (deliver h ts ks w)"
proof (induction ks arbitrary: w)
  case Nil
  then show ?case by simp
next
  case (Cons k ks)
  show ?case
  proof (cases "k \<in> set (pending w)")
    case True
    have "engine_world
        (w\<lparr>pending := removeAll k (pending w), frame := Some ts, isRunningRaf := False\<rparr>)"
      using Cons.prems by (simp add: engine_world_def)
    then have "engine_world (snd (onFrame h ts (w\<lparr>pending := removeAll k (pending w)\<rparr>)))"
      using engine_world_animationLoop by (simp add: onFrame_def)
    then show ?thesis using True Cons.IH by simp
  next
    case False
    then show ?thesis using Cons by simp
  qed
qed

lemma engine_world_new: "engine_world (new_RafProgress m cb t)"
  by (simp add: engine_world_def new_RafProgress_def new_Raf_def watch_def)

lemma engine_world_methods:
  assumes "engine_world w"
  shows "engine_world (snd (setCurrentProgress m p w))"
    and "engine_world (snd (easeTo m target amount easing w))"
    and "engine_world (snd (progress_run m w))"
    and "engine_world (progress_stop w)"
    and "engine_world (progress_dispose w)"
    and "engine_world (setPrecision n w)"
    and "engine_world (onProgressChange listener w)"
    and "engine_world (platformFrame (progress_host m) ts w)"
    and "engine_world (at_time t w)"
  using assms
  by (simp_all add: setCurrentProgress_def easeTo_def progress_run_def progress_stop_def
      progress_dispose_def setPrecision_def onProgressChange_def platformFrame_def at_time_def
      engine_world_start engine_world_env engine_world_stop engine_world_deliver)

subsection \<open>Setting the progress\<close>







section \<open>Properties of the progress watcher\<close>

lemmas watcher_defs = setProgress_def dispatch_def direction_def isBetween_def
  new_ProgressWatcher_def add_def Let_def

lemma dispatch_ignores_runWhen:
  "dispatch previous pw (watcher\<lparr>runWhen_w := g\<rparr>) = dispatch previous pw watcher"
  by (simp add: dispatch_def Let_def)

text \<open>
  C3 (the claim: when the progress is inside a watcher's interval and its guard
  returns false, the callback is not called for that update and the watcher stays
  registered). Both branches of the test of \<^verbatim>\<open>runWhen\<close> call the callback: a watcher
  on [0.2, 0.4] whose guard returns false is called with progress 0.3 and direction
  1 (and it stays registered).
\<close>

theorem failing_guard_does_not_suppress:
  "setProgress 0.3
     \<lparr>watchers = Some [\<lparr>range_w = Range [0.2, 0.4], callback = (1::nat),
                         runWhen_w = Some (\<lambda>u. False)\<rparr>],
      currentProgress_w = 0, direction_w = 0\<rparr> =
   Inr (\<lparr>watchers = Some [\<lparr>range_w = Range [0.2, 0.4], callback = 1,
                              runWhen_w = Some (\<lambda>u. False)\<rparr>],
         currentProgress_w = 0.3, direction_w = 1\<rparr>,
        [(1, 0.3, 1)])"
  by (simp add: watcher_defs)

section \<open>Properties of the storyboard\<close>

lemmas story_defs = explicit_frames_def track_of_def generateStoryboard_def
  getStartAndEndTimelineFromStoryboard_def

text \<open>
  C8. With the keys \<^verbatim>\<open>['alpha']\<close> and the keyframes of the worked example, the
  compiled track of alpha is (0, 0), (0.2, 0), (0.8, 0.6), (1, 0.6); on that
  storyboard the progresses 0 and 0.2 resolve to the pair (0, 0), (0.2, 0), the
  progresses 0.21 and 0.5 to (0.2, 0), (0.8, 0.6), and the progress 1 to (0.8, 0.6),
  (1, 0.6).
\<close>

theorem storyboard_worked_example:
  "generateStoryboard [''alpha''] example_frames ''alpha'' =
     Some [\<lparr>progress = 0, values_of = [(''alpha'', 0)]\<rparr>,
           \<lparr>progress = 0.2, values_of = [(''alpha'', 0)]\<rparr>,
           \<lparr>progress = 0.8, values_of = [(''alpha'', 0.6)]\<rparr>,
           \<lparr>progress = 1, values_of = [(''alpha'', 0.6)]\<rparr>] \<and>
   getStartAndEndTimelineFromStoryboard (generateStoryboard [''alpha''] example_frames) ''alpha'' 0 =
     Inr (\<lparr>progress = 0, values_of = [(''alpha'', 0)]\<rparr>,
          \<lparr>progress = 0.2, values_of = [(''alpha'', 0)]\<rparr>) \<and>
   getStartAndEndTimelineFromStoryboard (generateStoryboard [''alpha''] example_frames) ''alpha'' 0.2 =
     Inr (\<lparr>progress = 0, values_of = [(''alpha'', 0)]\<rparr>,
          \<lparr>progress = 0.2, values_of = [(''alpha'', 0)]\<rparr>) \<and>
   getStartAndEndTimelineFromStoryboard (generateStoryboard [''alpha''] example_frames) ''alpha'' 0.21 =
     Inr (\<lparr>progress = 0.2, values_of = [(''alpha'', 0)]\<rparr>,
          \<lparr>progress = 0.8, values_of = [(''alpha'', 0.6)]\<rparr>) \<and>
   getStartAndEndTimelineFromStoryboard (generateStoryboard [''alpha''] example_frames) ''alpha'' 0.5 =
     Inr (\<lparr>progress = 0.2, values_of = [(''alpha'', 0)]\<rparr>,
          \<lparr>progress = 0.8, values_of = [(''alpha'', 0.6)]\<rparr>) \<and>
   getStartAndEndTimelineFromStoryboard (generateStoryboard [''alpha''] example_frames) ''alpha'' 1 =
     Inr (\<lparr>progress = 0.8, values_of = [(''alpha'', 0.6)]\<rparr>,
          \<lparr>progress = 1, values_of = [(''alpha'', 0.6)]\<rparr>)"
  by (simp add: story_defs example_frames_def)

end
